theory Spec2Isabelle
  imports Main
begin

section \<open>Strings, paths and formatting\<close>

text \<open>
  Go strings are byte strings; they are modelled as \<open>string\<close> (a list of 8-bit
  characters). \<open>filepath.Join\<close> is modelled on clean components (no empty component,
  no trailing slash): it puts one slash between them.
\<close>

definition join :: "string \<Rightarrow> string \<Rightarrow> string" where
  "join a b = a @ ''/'' @ b"

text \<open>\<open>strings.HasPrefix\<close>.\<close>

fun HasPrefix :: "string \<Rightarrow> string \<Rightarrow> bool" where
  "HasPrefix s [] = True"
| "HasPrefix [] (p # ps) = False"
| "HasPrefix (c # cs) (p # ps) = (c = p \<and> HasPrefix cs ps)"

text \<open>\<open>strings.Join\<close>.\<close>

fun Join :: "string list \<Rightarrow> string \<Rightarrow> string" where
  "Join [] sep = []"
| "Join [x] sep = x"
| "Join (x # y # ys) sep = x @ sep @ Join (y # ys) sep"

text \<open>The verb \<open>%d\<close> of \<open>fmt.Sprintf\<close>, on naturals and on integers.\<close>

definition digit_char :: "nat \<Rightarrow> char" where
  "digit_char d = ''0123456789'' ! d"

function show_nat :: "nat \<Rightarrow> string" where
  "show_nat n = (if n < 10 then [digit_char n] else show_nat (n div 10) @ [digit_char (n mod 10)])"
  by pat_completeness auto
termination
  by (relation "measure id") auto

declare show_nat.simps [simp del]

definition show_int :: "int \<Rightarrow> string" where
  "show_int i = (if i < 0 then CHR ''-'' # show_nat (nat (- i)) else show_nat (nat i))"

text \<open>
  \<open>path.Base\<close>: the last element of a slash-separated path, after trailing slashes are
  removed; \<open>.\<close> for the empty path and \<open>/\<close> for a path of slashes only.
\<close>

fun strip_trailing_slashes :: "string \<Rightarrow> string" where
  "strip_trailing_slashes [] = []"
| "strip_trailing_slashes (c # cs) =
     (case strip_trailing_slashes cs of
        [] \<Rightarrow> (if c = CHR ''/'' then [] else [c])
      | r # rs \<Rightarrow> c # r # rs)"

fun after_last_slash :: "string \<Rightarrow> string" where
  "after_last_slash [] = []"
| "after_last_slash (c # cs) =
     (if CHR ''/'' \<in> set cs then after_last_slash cs
      else if c = CHR ''/'' then cs else c # cs)"

definition path_Base :: "string \<Rightarrow> string" where
  "path_Base p =
     (if p = [] then ''.''
      else let q = after_last_slash (strip_trailing_slashes p)
           in if q = [] then ''/'' else q)"

text \<open>\<open>snapshots.UnpackKeyPrefix\<close> of containerd.\<close>

definition UnpackKeyPrefix :: string where
  "UnpackKeyPrefix = ''extract''"

definition isExtractKey :: "string \<Rightarrow> bool" where
  "isExtractKey key = HasPrefix (path_Base key) UnpackKeyPrefix"

section \<open>Data model\<close>

datatype kind = KindUnknown | KindView | KindActive | KindCommitted

text \<open>\<open>mount.Mount\<close> of containerd.\<close>

record mount =
  Source :: string
  Type :: string
  Options :: "string list"

text \<open>\<open>storage.Snapshot\<close> and \<open>snapshots.Info\<close> of containerd.\<close>

record snapshot =
  ID :: string
  Kind :: kind
  ParentIDs :: "string list"

record info =
  Name :: string
  Parent :: string
  InfoKind :: kind
  Labels :: "string \<rightharpoonup> string"

text \<open>The \<open>snapshotter\<close> struct (the metadata store is part of the world, below).\<close>

record snapshotter =
  root :: string
  ovlOptions :: "string list"
  enableFsverity :: bool
  setImmutable :: bool
  defaultWritable :: int
  blockMode :: bool
  fsMergeThreshold :: nat

text \<open>
  The file system: a map from paths to nodes. A regular file carries its size and the
  argument list of the \<open>mkfs\<close> run that formatted it (empty when it was never
  formatted).
\<close>

datatype node = Dir | File int "string list"

type_synonym fs = "string \<rightharpoonup> node"

text \<open>
  \<open>os.Stat\<close> followed by \<open>Size()\<close>: \<open>None\<close> when the path does not exist. The size of
  a directory is system dependent; one block is reported.
\<close>

definition stat_size :: "fs \<Rightarrow> string \<Rightarrow> int option" where
  "stat_size f p =
     (case f p of None \<Rightarrow> None | Some Dir \<Rightarrow> Some 4096 | Some (File n _) \<Rightarrow> Some n)"

text \<open>
  Operations of the operating system and of external tools fail for reasons outside the
  program. A run is given the set of operations that fail in it.
\<close>

datatype fault =
    FMkdirTemp | FMkdirFs | FMkdirWork | FMkdirAll | FMarker | FChown | FRename
  | FRemoveAll | FTxCommit | FCreate | FTruncate | FMkfsExt4 | FPlaceholder
  | FMkfsErofs | FRenameFsmeta | FVerityCheck | FVerityOff | FVerityEnable
  | FSetImmutable | FConvert | FConvertNotImplemented | FDiskUsage | FMount | FMounted

text \<open>
  Errors. \<open>fmt.Errorf\<close> with \<open>%w\<close> only adds a message to its cause; the model
  returns the cause.
\<close>

datatype error =
    ErrLayerBlob string
  | ErrNotView
  | ErrVerityStatus
  | ErrVerityDisabled string
  | ErrMkdir string
  | ErrMarker
  | ErrTempDir
  | ErrNotFound string
  | ErrAlreadyExists string
  | ErrInvalidArgument string
  | ErrFailedPrecondition string
  | ErrStatParent
  | ErrChown
  | ErrRename
  | ErrTxCommit
  | ErrCreateWritable
  | ErrAllocateWritable
  | ErrFormatExt4
  | ErrAccessWritable
  | ErrConvert
  | ErrNotImplemented
  | ErrEnableVerity
  | ErrConvertedBlob
  | ErrDiskUsage
  | ErrMounted
  | ErrMount string

section \<open>Paths of a snapshot\<close>

definition upperPath :: "snapshotter \<Rightarrow> string \<Rightarrow> string" where
  "upperPath s sid = join (join (join (root s) ''snapshots'') sid) ''fs''"

definition workPath :: "snapshotter \<Rightarrow> string \<Rightarrow> string" where
  "workPath s sid = join (join (join (root s) ''snapshots'') sid) ''work''"

definition upperDir :: "snapshotter \<Rightarrow> string \<Rightarrow> string" where
  "upperDir s sid =
     (if blockMode s then join (join (upperPath s sid) ''rw'') ''upper'' else upperPath s sid)"

definition workDir :: "snapshotter \<Rightarrow> string \<Rightarrow> string" where
  "workDir s sid =
     (if blockMode s then join (join (upperPath s sid) ''rw'') ''work'' else workPath s sid)"

definition writablePath :: "snapshotter \<Rightarrow> string \<Rightarrow> string" where
  "writablePath s sid = join (join (join (root s) ''snapshots'') sid) ''rwlayer.img''"

definition layerBlobPath :: "snapshotter \<Rightarrow> string \<Rightarrow> string" where
  "layerBlobPath s sid = join (join (join (root s) ''snapshots'') sid) ''layer.erofs''"

definition fsMetaPath :: "snapshotter \<Rightarrow> string \<Rightarrow> string" where
  "fsMetaPath s sid = join (join (join (root s) ''snapshots'') sid) ''fsmeta.erofs''"

definition lowerPath :: "snapshotter \<Rightarrow> fs \<Rightarrow> string \<Rightarrow> error + string" where
  "lowerPath s f sid =
     (let layerBlob = layerBlobPath s sid
      in case f layerBlob of None \<Rightarrow> Inl (ErrLayerBlob layerBlob) | Some _ \<Rightarrow> Inr layerBlob)"

section \<open>The mount planner\<close>

definition erofs_mount :: "string \<Rightarrow> mount" where
  "erofs_mount blob = \<lparr>Source = blob, Type = ''erofs'', Options = [''ro'', ''loop'']\<rparr>"

text \<open>
  The loop of \<open>mountFsMeta\<close>: it visits the identifiers it is given in order and stops at
  the first blob that is missing or empty.
\<close>

fun device_options :: "snapshotter \<Rightarrow> fs \<Rightarrow> string list \<Rightarrow> string list option" where
  "device_options s f [] = Some []"
| "device_options s f (p # ps) =
     (let blob = layerBlobPath s p
      in case stat_size f blob of
           None \<Rightarrow> None
         | Some n \<Rightarrow>
             if n = 0 then None
             else (case device_options s f ps of
                     None \<Rightarrow> None
                   | Some ds \<Rightarrow> Some ((''device='' @ blob) # ds)))"

text \<open>
  \<open>mountFsMeta\<close>: the index \<open>j\<close> runs from the last parent down to the argument, so the
  identifiers are visited in the order \<open>rev (drop idx ParentIDs)\<close>.
\<close>

definition mountFsMeta :: "snapshotter \<Rightarrow> fs \<Rightarrow> snapshot \<Rightarrow> nat \<Rightarrow> mount option" where
  "mountFsMeta s f snap idx =
     (if blockMode s then None
      else let mergedMeta = fsMetaPath s (ParentIDs snap ! idx)
           in case stat_size f mergedMeta of
                None \<Rightarrow> None
              | Some n \<Rightarrow>
                  if n = 0 then None
                  else (case device_options s f (rev (drop idx (ParentIDs snap))) of
                          None \<Rightarrow> None
                        | Some ds \<Rightarrow>
                            Some \<lparr>Source = mergedMeta, Type = ''erofs'',
                                  Options = [''ro'', ''loop''] @ ds\<rparr>))"

definition verifyFsverity :: "snapshotter \<Rightarrow> fault set \<Rightarrow> string \<Rightarrow> error option" where
  "verifyFsverity s flt path =
     (if \<not> enableFsverity s then None
      else if FVerityCheck \<in> flt then Some ErrVerityStatus
      else if FVerityOff \<in> flt then Some (ErrVerityDisabled path)
      else None)"

definition roFlag :: "snapshot \<Rightarrow> string" where
  "roFlag snap = (if Kind snap = KindView then ''ro'' else ''rw'')"

definition writableMount :: "snapshotter \<Rightarrow> fs \<Rightarrow> snapshot \<Rightarrow> string \<Rightarrow> mount" where
  "writableMount s f snap flag =
     (let writablePath = writablePath s (ID snap)
      in case f writablePath of
           Some _ \<Rightarrow> \<lparr>Source = writablePath, Type = ''ext4'', Options = [flag, ''loop'']\<rparr>
         | None \<Rightarrow>
             \<lparr>Source = writablePath, Type = ''mkfs/ext4'',
              Options = [''X-containerd.mkfs.fs=ext4'',
                         ''X-containerd.mkfs.size='' @ show_int (defaultWritable s),
                         flag, ''loop'']\<rparr>)"

definition singleLayerMounts ::
  "snapshotter \<Rightarrow> fault set \<Rightarrow> fs \<Rightarrow> snapshot \<Rightarrow> string list \<Rightarrow> error + mount list" where
  "singleLayerMounts s flt f snap options =
     (case lowerPath s f (ID snap) of
        Inr layerBlob \<Rightarrow>
          if Kind snap \<noteq> KindView then Inl ErrNotView
          else (case verifyFsverity s flt layerBlob of
                  Some e \<Rightarrow> Inl e
                | None \<Rightarrow> Inr [erofs_mount layerBlob])
      | Inl _ \<Rightarrow>
          if blockMode s then
            Inr [writableMount s f snap (roFlag snap),
                 \<lparr>Source = ''{{ mount 0 }}/upper'', Type = ''format/mkdir/bind'',
                  Options = options @ [''X-containerd.mkdir.path={{ mount 0 }}/upper:0755'',
                                       roFlag snap, ''rbind'']\<rparr>]
          else
            Inr [\<lparr>Source = upperPath s (ID snap), Type = ''bind'',
                  Options = options @ [roFlag snap, ''rbind'']\<rparr>])"

definition activeLayerMounts ::
  "snapshotter \<Rightarrow> fs \<Rightarrow> snapshot \<Rightarrow> string list \<Rightarrow> mount list \<times> string list" where
  "activeLayerMounts s f snap options =
     (if blockMode s then
        ([writableMount s f snap ''rw''],
         options @ [''X-containerd.mkdir.path={{ mount 0 }}/upper:0755'',
                    ''X-containerd.mkdir.path={{ mount 0 }}/work:0755'',
                    ''workdir={{ mount 0 }}/work'',
                    ''upperdir={{ mount 0 }}/upper''])
      else
        ([], options @ [''workdir='' @ workPath s (ID snap),
                        ''upperdir='' @ upperPath s (ID snap)]))"

text \<open>
  The loop ``build lower layer mounts'' of \<open>templateMounts\<close>. The fourth argument is the
  loop index \<open>i\<close>, the fifth the parents from index \<open>i\<close> on. The result is the mount list
  and the value of \<open>first\<close>, which the loop changes only when it takes an fsmeta mount.
\<close>

fun lowerLayerMounts ::
  "snapshotter \<Rightarrow> fs \<Rightarrow> snapshot \<Rightarrow> nat \<Rightarrow> string list \<Rightarrow> mount list \<Rightarrow> nat
     \<Rightarrow> error + (mount list \<times> nat)" where
  "lowerLayerMounts s f snap i [] mounts first = Inr (mounts, first)"
| "lowerLayerMounts s f snap i (p # ps) mounts first =
     (case (if fsMergeThreshold s > 0 then mountFsMeta s f snap i else None) of
        Some m \<Rightarrow> Inr (mounts @ [m], length (mounts @ [m]) - 1)
      | None \<Rightarrow>
          (case lowerPath s f p of
             Inl e \<Rightarrow> Inl e
           | Inr layerBlob \<Rightarrow>
               lowerLayerMounts s f snap (Suc i) ps (mounts @ [erofs_mount layerBlob]) first))"

definition overlay_mount :: "string list \<Rightarrow> mount" where
  "overlay_mount options =
     \<lparr>Source = ''overlay'', Type = ''format/mkdir/overlay'', Options = options\<rparr>"

text \<open>
  The part ``build overlay options'' of \<open>templateMounts\<close>: the mount list that is
  returned, given the options so far, the mounts so far and \<open>first\<close>.
\<close>

definition overlayStack ::
  "snapshotter \<Rightarrow> snapshot \<Rightarrow> string list \<Rightarrow> mount list \<Rightarrow> nat \<Rightarrow> mount list" where
  "overlayStack s snap options0 mnts first =
     (if length mnts - first = 1 \<and> Kind snap = KindView then mnts
      else
        let options1 =
              (if length mnts - first = 1
               then options0 @ [''lowerdir={{ mount '' @ show_nat first @ '' }}'']
               else options0 @ [''lowerdir={{ overlay '' @ show_nat first @ '' ''
                                 @ show_nat (length mnts - 1) @ '' }}'']);
            options2 = (if Kind snap = KindView then options1 @ [''ro''] else options1)
        in mnts @ [overlay_mount (options2 @ ovlOptions s)])"

definition templateMounts ::
  "snapshotter \<Rightarrow> fault set \<Rightarrow> fs \<Rightarrow> snapshot \<Rightarrow> error + mount list" where
  "templateMounts s flt f snap =
     (if length (ParentIDs snap) = 0 then singleLayerMounts s flt f snap []
      else if Kind snap \<noteq> KindActive \<and> length (ParentIDs snap) = 1 then
        (case lowerPath s f (ParentIDs snap ! 0) of
           Inl e \<Rightarrow> Inl e
         | Inr layerBlob \<Rightarrow> Inr [erofs_mount layerBlob])
      else
        let (mounts0, options0) =
              (if Kind snap = KindActive then activeLayerMounts s f snap [] else ([], []))
        in case lowerLayerMounts s f snap 0 (ParentIDs snap) mounts0 (length mounts0) of
             Inl e \<Rightarrow> Inl e
           | Inr (mnts, first) \<Rightarrow> Inr (overlayStack s snap options0 mnts first))"

section \<open>File system operations\<close>

text \<open>\<open>is_under d p\<close>: the path \<open>p\<close> is \<open>d\<close> itself or lies below it.\<close>

definition is_under :: "string \<Rightarrow> string \<Rightarrow> bool" where
  "is_under d p = (p = d \<or> HasPrefix p (d @ ''/''))"

text \<open>\<open>os.RemoveAll\<close>: the path and everything below it is gone.\<close>

definition RemoveAll :: "fs \<Rightarrow> string \<Rightarrow> fs" where
  "RemoveAll f d = (\<lambda>p. if is_under d p then None else f p)"

text \<open>
  \<open>os.Rename\<close> of a directory tree: what was at or below \<open>a\<close> is afterwards at the
  same place at or below \<open>b\<close>. The failures of the system call are the fault
  \<open>FRename\<close>.
\<close>

definition Rename :: "fs \<Rightarrow> string \<Rightarrow> string \<Rightarrow> fs" where
  "Rename f a b =
     (\<lambda>p. if is_under b p then f (a @ drop (length b) p)
          else if is_under a p then None
          else f p)"

text \<open>The proper ancestors of a path, outermost first.\<close>

fun ancestors :: "string \<Rightarrow> string \<Rightarrow> string list" where
  "ancestors acc [] = []"
| "ancestors acc (c # cs) =
     (if c = CHR ''/'' \<and> acc \<noteq> [] then acc # ancestors (acc @ [c]) cs
      else ancestors (acc @ [c]) cs)"

definition is_file :: "node option \<Rightarrow> bool" where
  "is_file n = (case n of Some (File _ _) \<Rightarrow> True | _ \<Rightarrow> False)"

text \<open>
  \<open>os.MkdirAll\<close>: creates the directory and the ancestors that are missing; fails when
  one of them is a regular file.
\<close>

definition MkdirAll :: "fault set \<Rightarrow> fs \<Rightarrow> string \<Rightarrow> fs option" where
  "MkdirAll flt f p =
     (let ps = ancestors [] p @ [p]
      in if FMkdirAll \<in> flt \<or> (\<exists>q \<in> set ps. is_file (f q)) then None
         else Some (\<lambda>q. if q \<in> set ps \<and> f q = None then Some Dir else f q))"

text \<open>
  \<open>ensureMarkerFile\<close>: exclusive create; a file that is already there is not an error.
\<close>

definition ensureMarkerFile :: "fault set \<Rightarrow> fs \<Rightarrow> string \<Rightarrow> fs option" where
  "ensureMarkerFile flt f path =
     (if f path \<noteq> None then Some f
      else if FMarker \<in> flt then None
      else Some (f(path \<mapsto> File 0 [])))"

definition erofsLayerMarker :: string where
  "erofsLayerMarker = ''.erofslayer''"

definition extractLabel :: string where
  "extractLabel = ''containerd.io/snapshot/erofs.extract''"

text \<open>The label constant of the label table (\<open>LabelPrefix + "layer-blob-path"\<close>).\<close>

definition LabelLayerBlobPath :: string where
  "LabelLayerBlobPath = ''nexus-erofs-snapshotter/layer-blob-path''"

definition isExtractSnapshot :: "info \<Rightarrow> bool" where
  "isExtractSnapshot i = (Labels i extractLabel = Some ''true'')"

text \<open>\<open>filepath.Dir\<close> of \<open>upperPath s sid\<close> is the snapshot's directory.\<close>

definition snapshotDirOf :: "snapshotter \<Rightarrow> string \<Rightarrow> string" where
  "snapshotDirOf s sid = join (join (root s) ''snapshots'') sid"

definition diffMounts ::
  "snapshotter \<Rightarrow> fault set \<Rightarrow> fs \<Rightarrow> snapshot \<Rightarrow> (error + mount list) \<times> fs" where
  "diffMounts s flt f snap =
     (let upperRoot = upperPath s (ID snap);
          layerRoot = snapshotDirOf s (ID snap)
      in case MkdirAll flt f upperRoot of
           None \<Rightarrow> (Inl (ErrMkdir upperRoot), f)
         | Some f1 \<Rightarrow>
             (case ensureMarkerFile flt f1 (join layerRoot erofsLayerMarker) of
                None \<Rightarrow> (Inl ErrMarker, f1)
              | Some f2 \<Rightarrow>
                  (Inr [\<lparr>Source = upperRoot, Type = ''bind'', Options = [''rw'', ''rbind'']\<rparr>],
                   f2)))"

definition mounts ::
  "snapshotter \<Rightarrow> fault set \<Rightarrow> fs \<Rightarrow> snapshot \<Rightarrow> info \<Rightarrow> (error + mount list) \<times> fs" where
  "mounts s flt f snap i =
     (if blockMode s \<and> Kind snap = KindActive then
        (if isExtractSnapshot i then diffMounts s flt f snap
         else (templateMounts s flt f snap, f))
      else (templateMounts s flt f snap, f))"

section \<open>The block executor\<close>

text \<open>The mount table: what is mounted at a mount point.\<close>

type_synonym mtab = "string \<rightharpoonup> mount"




section \<open>The metadata store\<close>

text \<open>
  The store is containerd's \<open>storage\<close> package, which is not part of the repository. It
  is modelled from its interface: a map from keys to records and the counter that
  numbers the snapshots. A record keeps the identifiers of its ancestors, which the
  store derives from the parent links.
\<close>

record srec =
  rec_id :: string
  rec_kind :: kind
  rec_parent :: string
  rec_parents :: "string list"
  rec_labels :: "string \<rightharpoonup> string"

record store =
  recs :: "string \<rightharpoonup> srec"
  seq :: nat

text \<open>An option is \<open>snapshots.WithLabels\<close> of a label map: it replaces the labels.\<close>

type_synonym opt = "string \<rightharpoonup> string"

definition apply_opts :: "opt list \<Rightarrow> string \<rightharpoonup> string" where
  "apply_opts opts = foldl (\<lambda>_ m. m) Map.empty opts"

definition zero_snapshot :: snapshot where
  "zero_snapshot = \<lparr>ID = [], Kind = KindUnknown, ParentIDs = []\<rparr>"

definition zero_info :: info where
  "zero_info = \<lparr>Name = [], Parent = [], InfoKind = KindUnknown, Labels = Map.empty\<rparr>"

definition storage_CreateSnapshot ::
  "store \<Rightarrow> kind \<Rightarrow> string \<Rightarrow> string \<Rightarrow> opt list \<Rightarrow> error + (snapshot \<times> store)" where
  "storage_CreateSnapshot st k key parent opts =
     (if k \<noteq> KindActive \<and> k \<noteq> KindView then Inl (ErrInvalidArgument key)
      else if parent \<noteq> [] \<and> recs st parent = None then Inl (ErrNotFound parent)
      else if parent \<noteq> [] \<and> map_option rec_kind (recs st parent) \<noteq> Some KindCommitted
        then Inl (ErrInvalidArgument parent)
      else if recs st key \<noteq> None then Inl (ErrAlreadyExists key)
      else
        let n = Suc (seq st);
            pids = (case (if parent = [] then None else recs st parent) of
                      None \<Rightarrow> []
                    | Some pr \<Rightarrow> rec_id pr # rec_parents pr);
            r = \<lparr>rec_id = show_nat n, rec_kind = k, rec_parent = parent,
                 rec_parents = pids, rec_labels = apply_opts opts\<rparr>
        in Inr (\<lparr>ID = show_nat n, Kind = k, ParentIDs = pids\<rparr>,
                st\<lparr>recs := (recs st)(key \<mapsto> r), seq := n\<rparr>))"

definition storage_GetInfo :: "store \<Rightarrow> string \<Rightarrow> error + (string \<times> info)" where
  "storage_GetInfo st key =
     (case recs st key of
        None \<Rightarrow> Inl (ErrNotFound key)
      | Some r \<Rightarrow>
          Inr (rec_id r,
               \<lparr>Name = key, Parent = rec_parent r, InfoKind = rec_kind r,
                Labels = rec_labels r\<rparr>))"

definition storage_GetSnapshot :: "store \<Rightarrow> string \<Rightarrow> error + snapshot" where
  "storage_GetSnapshot st key =
     (case recs st key of
        None \<Rightarrow> Inl (ErrNotFound key)
      | Some r \<Rightarrow>
          if rec_kind r \<noteq> KindActive \<and> rec_kind r \<noteq> KindView
          then Inl (ErrFailedPrecondition key)
          else Inr \<lparr>ID = rec_id r, Kind = rec_kind r, ParentIDs = rec_parents r\<rparr>)"

definition storage_CommitActive ::
  "store \<Rightarrow> string \<Rightarrow> string \<Rightarrow> opt list \<Rightarrow> error + (string \<times> store)" where
  "storage_CommitActive st key name opts =
     (if recs st name \<noteq> None then Inl (ErrAlreadyExists name)
      else case recs st key of
             None \<Rightarrow> Inl (ErrNotFound key)
           | Some r \<Rightarrow>
               if rec_kind r \<noteq> KindActive then Inl (ErrFailedPrecondition key)
               else Inr (rec_id r,
                         st\<lparr>recs := (recs st)
                               (key := None,
                                name \<mapsto> r\<lparr>rec_kind := KindCommitted,
                                           rec_labels := apply_opts opts\<rparr>)\<rparr>))"

section \<open>The world and the lifecycle engine\<close>

text \<open>
  The trace records, in order, the steps of a run that other processes can observe: the
  transaction boundaries of the store, the record written inside a transaction, the
  publication of a directory by \<open>rename\<close>, removals, the attributes set on a blob and
  the warnings logged.
\<close>

datatype event =
    EvMkdirTemp string
  | EvBegin
  | EvCreateSnapshot string string
  | EvRename string string
  | EvCommitActive string string
  | EvCommit
  | EvRollback
  | EvRemoveAll string
  | EvVerity string
  | EvImmutable string
  | EvWarn string

record world =
  wfs :: fs
  wms :: store
  wmt :: mtab
  wtrace :: "event list"

text \<open>
  \<open>prepareDirectory\<close>. The name \<open>os.MkdirTemp\<close> picks is given by the argument
  \<open>tmp\<close>. The result is the directory name (empty when none was created), the error
  and the file system.
\<close>

definition prepareDirectory ::
  "snapshotter \<Rightarrow> fault set \<Rightarrow> fs \<Rightarrow> string \<Rightarrow> kind \<Rightarrow> string
     \<Rightarrow> string \<times> error option \<times> fs" where
  "prepareDirectory s flt f snapshotDir k tmp =
     (let td = join snapshotDir (''new-'' @ tmp)
      in if FMkdirTemp \<in> flt \<or> f td \<noteq> None then ([], Some ErrTempDir, f)
         else
           let f1 = f(td \<mapsto> Dir)
           in if FMkdirFs \<in> flt then (td, Some (ErrMkdir (join td ''fs'')), f1)
              else
                let f2 = f1(join td ''fs'' \<mapsto> Dir)
                in if k = KindActive then
                     (if \<not> blockMode s \<and> FMkdirWork \<in> flt
                        then (td, Some (ErrMkdir (join td ''work'')), f2)
                      else
                        let f3 = (if \<not> blockMode s then f2(join td ''work'' \<mapsto> Dir) else f2)
                        in case ensureMarkerFile flt f3 (join td erofsLayerMarker) of
                             None \<Rightarrow> (td, Some ErrMarker, f3)
                           | Some f4 \<Rightarrow> (td, None, f4))
                   else (td, None, f2))"

definition mkfs_ext4_args :: "string \<Rightarrow> string list" where
  "mkfs_ext4_args path =
     [''-q'', ''-F'', ''-L'', ''rwlayer'', ''-E'',
      ''nodiscard,lazy_itable_init=1,lazy_journal_init=1'', path]"

text \<open>
  \<open>createWritableLayer\<close>: \<open>os.Create\<close>, \<open>Truncate\<close> to the configured size,
  \<open>mkfs.ext4\<close>; \<open>os.Remove\<close> after a failed step.
\<close>

definition createWritableLayer ::
  "snapshotter \<Rightarrow> fault set \<Rightarrow> fs \<Rightarrow> string \<Rightarrow> error option \<times> fs" where
  "createWritableLayer s flt f sid =
     (let path = writablePath s sid;
          size = defaultWritable s
      in if FCreate \<in> flt then (Some ErrCreateWritable, f)
         else
           let f1 = f(path \<mapsto> File 0 [])
           in if FTruncate \<in> flt then (Some ErrAllocateWritable, f1(path := None))
              else
                let f2 = f1(path \<mapsto> File size [])
                in if FMkfsExt4 \<in> flt then (Some ErrFormatExt4, f2(path := None))
                   else (None, f2(path \<mapsto> File size (mkfs_ext4_args path))))"

text \<open>
  The loop of \<open>generateFsMeta\<close> that gathers the blobs; it is given the identifiers in
  the order it visits them (from the last index down to 0).
\<close>

fun gather_blobs :: "snapshotter \<Rightarrow> fs \<Rightarrow> string list \<Rightarrow> string list option" where
  "gather_blobs s f [] = Some []"
| "gather_blobs s f (p # ps) =
     (let blob = layerBlobPath s p
      in case f blob of
           None \<Rightarrow> None
         | Some _ \<Rightarrow> map_option ((#) blob) (gather_blobs s f ps))"

text \<open>
  \<open>generateFsMeta\<close>. The size of the image that \<open>mkfs.erofs\<close> writes is outside the
  model; one block stands for it.
\<close>

definition generateFsMeta :: "snapshotter \<Rightarrow> fault set \<Rightarrow> fs \<Rightarrow> string list \<Rightarrow> fs" where
  "generateFsMeta s flt f snapIDs =
     (if fsMergeThreshold s = 0 \<or> length snapIDs \<le> fsMergeThreshold s then f
      else
        let mergedMeta = fsMetaPath s (snapIDs ! 0)
        in if f mergedMeta \<noteq> None \<or> FPlaceholder \<in> flt then f
           else
             let f1 = f(mergedMeta \<mapsto> File 0 [])
             in case gather_blobs s f1 (rev snapIDs) of
                  None \<Rightarrow> f1
                | Some blobs \<Rightarrow>
                    let tmpMergedMeta = mergedMeta @ ''.tmp'';
                        args = [''--aufs'', ''--ovlfs-strip=1'', ''--quiet'', tmpMergedMeta]
                               @ blobs
                    in if FMkfsErofs \<in> flt then f1
                       else
                         let f2 = f1(tmpMergedMeta \<mapsto> File 4096 args)
                         in if FRenameFsmeta \<in> flt then f2
                            else f2(tmpMergedMeta := None, mergedMeta \<mapsto> File 4096 args))"

text \<open>\<open>upperDirectoryPermission\<close>; the owner of a directory is outside the model.\<close>

definition upperDirectoryPermission :: "fault set \<Rightarrow> fs \<Rightarrow> string \<Rightarrow> string \<Rightarrow> error option" where
  "upperDirectoryPermission flt f p parent =
     (if f parent = None then Some ErrStatParent
      else if FChown \<in> flt then Some ErrChown
      else None)"

text \<open>
  The variables that the transaction callback of \<open>createSnapshot\<close> shares with its
  caller and with the deferred cleanup.
\<close>

record txvars =
  tx_err :: "error option"
  tx_snap :: snapshot
  tx_info :: info
  tx_td :: string
  tx_path :: string
  tx_fs :: fs
  tx_store :: store
  tx_events :: "event list"

text \<open>The callback that \<open>createSnapshot\<close> runs inside the write transaction.\<close>

definition createSnapshot_tx ::
  "snapshotter \<Rightarrow> fault set \<Rightarrow> kind \<Rightarrow> string \<Rightarrow> string \<Rightarrow> opt list \<Rightarrow> string \<Rightarrow> fs
     \<Rightarrow> store \<Rightarrow> txvars" where
  "createSnapshot_tx s flt k key parent opts td f st =
     (let v0 = \<lparr>tx_err = None, tx_snap = zero_snapshot, tx_info = zero_info, tx_td = td,
                tx_path = [], tx_fs = f, tx_store = st, tx_events = []\<rparr>
      in case storage_CreateSnapshot st k key parent opts of
           Inl e \<Rightarrow> v0\<lparr>tx_err := Some e\<rparr>
         | Inr (snap, st1) \<Rightarrow>
             let v1 = v0\<lparr>tx_snap := snap, tx_store := st1,
                         tx_events := [EvCreateSnapshot key (ID snap)]\<rparr>
             in case storage_GetInfo st1 key of
                  Inl e \<Rightarrow> v1\<lparr>tx_err := Some e\<rparr>
                | Inr (_, i) \<Rightarrow>
                    let v2 = v1\<lparr>tx_info := i\<rparr>
                    in case (if length (ParentIDs snap) > 0
                             then upperDirectoryPermission flt f (join td ''fs'')
                                    (upperPath s (ParentIDs snap ! 0))
                             else None) of
                         Some e \<Rightarrow> v2\<lparr>tx_err := Some e\<rparr>
                       | None \<Rightarrow>
                           let path = join (join (root s) ''snapshots'') (ID snap);
                               v3 = v2\<lparr>tx_path := path\<rparr>
                           in if FRename \<in> flt then v3\<lparr>tx_err := Some ErrRename\<rparr>
                              else v3\<lparr>tx_fs := Rename f td path, tx_td := [],
                                      tx_events := tx_events v3 @ [EvRename td path]\<rparr>)"

text \<open>
  The part of \<open>createSnapshot\<close> after the transaction: the fsmeta aggregation, whose
  errors are ignored, the eager creation of the writable layer, and the mount plan.
\<close>

definition createSnapshot_after ::
  "snapshotter \<Rightarrow> fault set \<Rightarrow> kind \<Rightarrow> string \<Rightarrow> snapshot \<Rightarrow> info \<Rightarrow> fs
     \<Rightarrow> (error + mount list) \<times> fs" where
  "createSnapshot_after s flt k key snap i f =
     (let f2 = (if \<not> isExtractKey key then generateFsMeta s flt f (ParentIDs snap) else f)
      in if k = KindActive \<and> blockMode s \<and> \<not> isExtractKey key then
           (case createWritableLayer s flt f2 (ID snap) of
              (Some e, f3) \<Rightarrow> (Inl e, f3)
            | (None, f3) \<Rightarrow> mounts s flt f3 snap i)
         else mounts s flt f2 snap i)"

text \<open>
  The body of \<open>createSnapshot\<close> up to its \<open>return\<close>: the result, the variables \<open>td\<close> and
  \<open>path\<close> as the deferred function finds them, and the world. \<open>WithTransaction\<close> of
  the store runs the callback on the open transaction; it rolls the store back when the
  callback or the commit fails, and makes the writes visible otherwise.
\<close>

definition createSnapshot_body ::
  "snapshotter \<Rightarrow> fault set \<Rightarrow> string \<Rightarrow> kind \<Rightarrow> string \<Rightarrow> string \<Rightarrow> opt list \<Rightarrow> world
     \<Rightarrow> (error + mount list) \<times> string \<times> string \<times> world" where
  "createSnapshot_body s flt tmp k key parent opts w =
     (case prepareDirectory s flt (wfs w) (join (root s) ''snapshots'') k tmp of
        (td, Some e, f1) \<Rightarrow>
          (Inl e, td, [],
           w\<lparr>wfs := f1, wtrace := wtrace w @ (if td = [] then [] else [EvMkdirTemp td])\<rparr>)
      | (td, None, f1) \<Rightarrow>
          let opts1 = (if isExtractKey key then opts @ [Map.empty(extractLabel \<mapsto> ''true'')]
                       else opts);
              v = createSnapshot_tx s flt k key parent opts1 td f1 (wms w);
              tr = wtrace w @ [EvMkdirTemp td, EvBegin] @ tx_events v
          in if tx_err v \<noteq> None \<or> FTxCommit \<in> flt then
               (Inl (case tx_err v of Some e \<Rightarrow> e | None \<Rightarrow> ErrTxCommit), tx_td v, tx_path v,
                w\<lparr>wfs := tx_fs v, wtrace := tr @ [EvRollback]\<rparr>)
             else
               (case createSnapshot_after s flt k key (tx_snap v) (tx_info v) (tx_fs v) of
                  (res, f4) \<Rightarrow>
                    (res, tx_td v, tx_path v,
                     w\<lparr>wfs := f4, wms := tx_store v, wtrace := tr @ [EvCommit]\<rparr>)))"

text \<open>The deferred function of \<open>createSnapshot\<close>.\<close>

definition createSnapshot_defer ::
  "fault set \<Rightarrow> (error + mount list) \<times> string \<times> string \<times> world
     \<Rightarrow> (error + mount list) \<times> world" where
  "createSnapshot_defer flt r =
     (case r of (res, td, path, w) \<Rightarrow>
        (case res of
           Inr ms \<Rightarrow> (Inr ms, w)
         | Inl e \<Rightarrow>
             let w1 = (if td \<noteq> [] \<and> FRemoveAll \<notin> flt
                       then w\<lparr>wfs := RemoveAll (wfs w) td,
                              wtrace := wtrace w @ [EvRemoveAll td]\<rparr>
                       else w);
                 w2 = (if path \<noteq> [] \<and> FRemoveAll \<notin> flt
                       then w1\<lparr>wfs := RemoveAll (wfs w1) path,
                               wtrace := wtrace w1 @ [EvRemoveAll path]\<rparr>
                       else w1)
             in (Inl e, w2)))"

definition createSnapshot ::
  "snapshotter \<Rightarrow> fault set \<Rightarrow> string \<Rightarrow> kind \<Rightarrow> string \<Rightarrow> string \<Rightarrow> opt list \<Rightarrow> world
     \<Rightarrow> (error + mount list) \<times> world" where
  "createSnapshot s flt tmp k key parent opts w =
     createSnapshot_defer flt (createSnapshot_body s flt tmp k key parent opts w)"

definition Prepare ::
  "snapshotter \<Rightarrow> fault set \<Rightarrow> string \<Rightarrow> string \<Rightarrow> string \<Rightarrow> opt list \<Rightarrow> world
     \<Rightarrow> (error + mount list) \<times> world" where
  "Prepare s flt tmp key parent opts w = createSnapshot s flt tmp KindActive key parent opts w"

definition View ::
  "snapshotter \<Rightarrow> fault set \<Rightarrow> string \<Rightarrow> string \<Rightarrow> string \<Rightarrow> opt list \<Rightarrow> world
     \<Rightarrow> (error + mount list) \<times> world" where
  "View s flt tmp key parent opts w = createSnapshot s flt tmp KindView key parent opts w"

definition Stat :: "world \<Rightarrow> string \<Rightarrow> error + info" where
  "Stat w key =
     (case storage_GetInfo (wms w) key of Inl e \<Rightarrow> Inl e | Inr (_, i) \<Rightarrow> Inr i)"

definition Mounts ::
  "snapshotter \<Rightarrow> fault set \<Rightarrow> string \<Rightarrow> world \<Rightarrow> (error + mount list) \<times> world" where
  "Mounts s flt key w =
     (case storage_GetSnapshot (wms w) key of
        Inl e \<Rightarrow> (Inl e, w)
      | Inr snap \<Rightarrow>
          (case storage_GetInfo (wms w) key of
             Inl e \<Rightarrow> (Inl e, w)
           | Inr (_, i) \<Rightarrow>
               let (res, f1) = mounts s flt (wfs w) snap i
               in (res, w\<lparr>wfs := f1\<rparr>)))"

section \<open>Commit\<close>

text \<open>
  Modelled from the spec: \<open>erofsutils.ConvertErofs\<close> (package \<open>pkg/erofs\<close>) is not
  among the sources. The spec: it ``converts an upperdir into an EROFS image by invoking
  an external \<open>mkfs.erofs\<close> tool with options \<open>--aufs --ovlfs-strip=1 --quiet <target>
  <source>\<close>''; a failure is an error and leaves no blob. The size of the image is
  outside the model; one block stands for it.
\<close>

definition ConvertErofs :: "fault set \<Rightarrow> fs \<Rightarrow> string \<Rightarrow> string \<Rightarrow> error option \<times> fs" where
  "ConvertErofs flt f layerBlob srcDir =
     (if FConvertNotImplemented \<in> flt then (Some ErrNotImplemented, f)
      else if FConvert \<in> flt then (Some ErrConvert, f)
      else (None, f(layerBlob \<mapsto>
                     File 4096 [''--aufs'', ''--ovlfs-strip=1'', ''--quiet'', layerBlob, srcDir])))"

text \<open>
  \<open>convertDirToErofs\<close>: after the conversion everything below the upper directory is
  removed, the directory itself stays.
\<close>

definition convertDirToErofs :: "fault set \<Rightarrow> fs \<Rightarrow> string \<Rightarrow> string \<Rightarrow> error option \<times> fs" where
  "convertDirToErofs flt f layerBlob upper =
     (case ConvertErofs flt f layerBlob upper of
        (Some e, f1) \<Rightarrow> (Some e, f1)
      | (None, f1) \<Rightarrow>
          if f1 upper = None then (Some (ErrNotFound upper), f1)
          else (None, (\<lambda>p. if HasPrefix p (upper @ ''/'') then None else f1 p)))"

text \<open>
  \<open>cleanupActiveMounts\<close>: unmounts \<open>merged\<close>, every directory directly below
  \<open>lower\<close>, and \<open>rw\<close>. Its errors are only logged by the caller.
\<close>

definition cleanupActiveMounts :: "fs \<Rightarrow> mtab \<Rightarrow> string \<Rightarrow> mtab" where
  "cleanupActiveMounts f mt upper =
     (let merged = join upper ''merged'';
          lower = join upper ''lower'';
          rw = join upper ''rw''
      in (\<lambda>t. if t = merged \<or> t = rw then None
               else if HasPrefix t (lower @ ''/'')
                       \<and> CHR ''/'' \<notin> set (drop (length lower + 1) t)
                       \<and> f t = Some Dir then None
               else mt t))"

definition commitBlock ::
  "snapshotter \<Rightarrow> fault set \<Rightarrow> fs \<Rightarrow> mtab \<Rightarrow> string \<Rightarrow> string
     \<Rightarrow> error option \<times> fs \<times> mtab" where
  "commitBlock s flt f mt layerBlob sid =
     (let layer = writablePath s sid
      in case f layer of
           None \<Rightarrow>
             (case convertDirToErofs flt f layerBlob (upperPath s sid) of
                (r, f1) \<Rightarrow> (r, f1, mt))
         | Some _ \<Rightarrow>
             let rwRoot = join (upperPath s sid) ''rw''
             in case MkdirAll flt f rwRoot of
                  None \<Rightarrow> (Some (ErrMkdir rwRoot), f, mt)
                | Some f1 \<Rightarrow>
                    if FMounted \<in> flt then (Some ErrMounted, f1, mt)
                    else if mt rwRoot = None \<and> FMount \<in> flt then (Some (ErrMount layer), f1, mt)
                    else
                      let mt1 = (if mt rwRoot = None
                                 then mt(rwRoot \<mapsto> \<lparr>Source = layer, Type = ''ext4'',
                                                     Options = [''ro'', ''loop'', ''noload'']\<rparr>)
                                 else mt);
                          upper = (if f1 (upperDir s sid) = None then upperPath s sid
                                   else upperDir s sid)
                      in case convertDirToErofs flt f1 layerBlob upper of
                           (r, f2) \<Rightarrow> (r, f2, cleanupActiveMounts f2 mt1 (upperPath s sid)))"

text \<open>
  \<open>Commit\<close> in its four steps. First step (after the read transaction has given the
  identifier): the blob of a cooperating differ is used as it is, otherwise the upper
  directory is converted.
\<close>

definition commit_blob ::
  "snapshotter \<Rightarrow> fault set \<Rightarrow> fs \<Rightarrow> mtab \<Rightarrow> string \<Rightarrow> error option \<times> fs \<times> mtab" where
  "commit_blob s flt f mt sid =
     (let layerBlob = layerBlobPath s sid
      in case f layerBlob of
           Some _ \<Rightarrow> (None, f, mt)
         | None \<Rightarrow>
             (case commitBlock s flt f mt layerBlob sid of
                (Some ce, f1, mt1) \<Rightarrow>
                  (Some (if ce = ErrNotImplemented then ErrLayerBlob layerBlob else ce), f1, mt1)
              | (None, f1, mt1) \<Rightarrow> (None, f1, mt1)))"

text \<open>
  Second and third step: fsverity, whose failure is returned, and the immutable flag,
  whose failure is logged. The result is the error and the events of the two steps.
\<close>

definition commit_attrs ::
  "snapshotter \<Rightarrow> fault set \<Rightarrow> string \<Rightarrow> error option \<times> event list" where
  "commit_attrs s flt layerBlob =
     (if enableFsverity s \<and> FVerityEnable \<in> flt then (Some ErrEnableVerity, [])
      else
        ((None :: error option),
         (if enableFsverity s then [EvVerity layerBlob] else [])
         @ (if setImmutable s
            then (if FSetImmutable \<in> flt
                  then [EvWarn ''failed to set IMMUTABLE_FL'']
                  else [EvImmutable layerBlob])
            else [])))"

text \<open>
  Fourth step, the write transaction: the blob is checked again, its disk usage is
  taken, and the record is committed. The result is the error, the store and the events.
\<close>

definition commit_tx ::
  "fault set \<Rightarrow> fs \<Rightarrow> store \<Rightarrow> string \<Rightarrow> string \<Rightarrow> opt list \<Rightarrow> string
     \<Rightarrow> error option \<times> store \<times> event list" where
  "commit_tx flt f st name key opts layerBlob =
     (if f layerBlob = None then (Some ErrConvertedBlob, st, [EvBegin, EvRollback])
      else if FDiskUsage \<in> flt then (Some ErrDiskUsage, st, [EvBegin, EvRollback])
      else
        (case storage_CommitActive st key name opts of
           Inl e \<Rightarrow> (Some e, st, [EvBegin, EvRollback])
         | Inr (_, st1) \<Rightarrow>
             if FTxCommit \<in> flt
               then (Some ErrTxCommit, st, [EvBegin, EvCommitActive key name, EvRollback])
             else (None, st1, [EvBegin, EvCommitActive key name, EvCommit])))"

definition Commit ::
  "snapshotter \<Rightarrow> fault set \<Rightarrow> string \<Rightarrow> string \<Rightarrow> opt list \<Rightarrow> world
     \<Rightarrow> error option \<times> world" where
  "Commit s flt name key opts w =
     (case storage_GetInfo (wms w) key of
        Inl e \<Rightarrow> (Some e, w)
      | Inr (sid, _) \<Rightarrow>
          (case commit_blob s flt (wfs w) (wmt w) sid of
             (Some e, f1, mt1) \<Rightarrow> (Some e, w\<lparr>wfs := f1, wmt := mt1\<rparr>)
           | (None, f1, mt1) \<Rightarrow>
               (case commit_attrs s flt (layerBlobPath s sid) of
                  (Some e, evs) \<Rightarrow> (Some e, w\<lparr>wfs := f1, wmt := mt1\<rparr>)
                | (None, evs) \<Rightarrow>
                    (case commit_tx flt f1 (wms w) name key opts (layerBlobPath s sid) of
                       (r, st1, evs1) \<Rightarrow>
                         (r, w\<lparr>wfs := f1, wmt := mt1, wms := st1,
                               wtrace := wtrace w @ evs @ evs1\<rparr>)))))"

section \<open>The layer-order label\<close>

text \<open>
  \<open>digest.Parse\<close> of the go-digest library, which is not part of the repository: a
  digest is \<open>algorithm:encoded\<close>; the algorithms that are registered are sha256, sha384
  and sha512, and the encoded part is lower-case hexadecimal of twice the size of the hash.
\<close>

definition is_lower_hex :: "char \<Rightarrow> bool" where
  "is_lower_hex c = (c \<in> set ''0123456789abcdef'')"

definition algorithm_Size :: "string \<Rightarrow> nat option" where
  "algorithm_Size a =
     (if a = ''sha256'' then Some 32
      else if a = ''sha384'' then Some 48
      else if a = ''sha512'' then Some 64
      else None)"

text \<open>\<open>strings.Index\<close> for a single character.\<close>

fun index_of :: "char \<Rightarrow> string \<Rightarrow> nat option" where
  "index_of c [] = None"
| "index_of c (x # xs) = (if x = c then Some 0 else map_option Suc (index_of c xs))"

definition digest_Validate :: "string \<Rightarrow> bool" where
  "digest_Validate d =
     (case index_of CHR '':'' d of
        None \<Rightarrow> False
      | Some i \<Rightarrow>
          if i = 0 \<or> i + 1 = length d then False
          else (case algorithm_Size (take i d) of
                  None \<Rightarrow> False
                | Some n \<Rightarrow>
                    length (drop (i + 1) d) = n * 2 \<and> list_all is_lower_hex (drop (i + 1) d)))"

definition digest_Parse :: "string \<Rightarrow> string option" where
  "digest_Parse s = (if digest_Validate s then Some s else None)"

text \<open>
  \<open>json.Marshal\<close> of a slice of strings (package \<open>encoding/json\<close> of the Go library,
  HTML escaping on). Bytes outside ASCII are copied; no digest contains one.
\<close>

definition hex_digit :: "nat \<Rightarrow> char" where
  "hex_digit n = ''0123456789abcdef'' ! (n mod 16)"

definition json_escape_char :: "char \<Rightarrow> string" where
  "json_escape_char c =
     (if c = CHR 0x22 \<or> c = CHR 0x5C then [CHR 0x5C, c]
      else if c = CHR 0x08 then [CHR 0x5C, CHR ''b'']
      else if c = CHR 0x0C then [CHR 0x5C, CHR ''f'']
      else if c = CHR 0x0A then [CHR 0x5C, CHR ''n'']
      else if c = CHR 0x0D then [CHR 0x5C, CHR ''r'']
      else if c = CHR 0x09 then [CHR 0x5C, CHR ''t'']
      else if (of_char c :: nat) < 32 \<or> c = CHR ''<'' \<or> c = CHR ''>'' \<or> c = CHR ''&''
        then [CHR 0x5C, CHR ''u'', CHR ''0'', CHR ''0'',
              hex_digit (of_char c div 16), hex_digit (of_char c)]
      else [c])"

definition json_quote :: "string \<Rightarrow> string" where
  "json_quote s = CHR 0x22 # concat (map json_escape_char s) @ [CHR 0x22]"

definition json_Marshal :: "string list \<Rightarrow> string option" where
  "json_Marshal strs = Some (''['' @ Join (map json_quote strs) '','' @ '']'')"

text \<open>\<open>EncodeLayerOrder\<close>; a \<open>digest.Digest\<close> is a string.\<close>

definition EncodeLayerOrder :: "string list \<Rightarrow> string" where
  "EncodeLayerOrder digests =
     (if length digests = 0 then ''[]''
      else case json_Marshal digests of None \<Rightarrow> ''[]'' | Some data \<Rightarrow> data)"

text \<open>
  \<open>json.Unmarshal\<close> into a slice of strings. The input must be one JSON value with
  white space around it. \<open>null\<close> gives the empty slice; an array gives its elements,
  where \<open>null\<close> stands for the empty string; every other value, and every element that
  is neither a string nor \<open>null\<close>, is an error, as is every violation of the syntax.
  Inside a string the escapes are decoded; Unicode escapes become UTF-8, a surrogate
  without its partner becomes U+FFFD. Bytes outside ASCII are copied.
\<close>

definition is_ws :: "char \<Rightarrow> bool" where
  "is_ws c = (c = CHR '' '' \<or> c = CHR 0x09 \<or> c = CHR 0x0A \<or> c = CHR 0x0D)"

definition hex_val :: "char \<Rightarrow> nat option" where
  "hex_val c =
     (let n = (of_char c :: nat)
      in if 48 \<le> n \<and> n \<le> 57 then Some (n - 48)
         else if 97 \<le> n \<and> n \<le> 102 then Some (n - 87)
         else if 65 \<le> n \<and> n \<le> 70 then Some (n - 55)
         else None)"

definition hex4 :: "char \<Rightarrow> char \<Rightarrow> char \<Rightarrow> char \<Rightarrow> nat option" where
  "hex4 a b c d =
     (case (hex_val a, hex_val b, hex_val c, hex_val d) of
        (Some x, Some y, Some z, Some u) \<Rightarrow> Some (((x * 16 + y) * 16 + z) * 16 + u)
      | _ \<Rightarrow> None)"

definition utf8_encode :: "nat \<Rightarrow> string" where
  "utf8_encode r =
     (if r < 128 then [char_of r]
      else if r < 2048 then [char_of (192 + r div 64), char_of (128 + r mod 64)]
      else if r < 65536 then
        [char_of (224 + r div 4096), char_of (128 + r div 64 mod 64), char_of (128 + r mod 64)]
      else
        [char_of (240 + r div 262144), char_of (128 + r div 4096 mod 64),
         char_of (128 + r div 64 mod 64), char_of (128 + r mod 64)])"

definition simple_escape :: "char \<Rightarrow> char option" where
  "simple_escape e =
     (if e = CHR 0x22 \<or> e = CHR 0x5C \<or> e = CHR ''/'' then Some e
      else if e = CHR ''b'' then Some (CHR 0x08)
      else if e = CHR ''f'' then Some (CHR 0x0C)
      else if e = CHR ''n'' then Some (CHR 0x0A)
      else if e = CHR ''r'' then Some (CHR 0x0D)
      else if e = CHR ''t'' then Some (CHR 0x09)
      else None)"

text \<open>
  The second half of a surrogate pair: the text after a Unicode escape that gave the
  surrogate \<open>r\<close>. The result is the rune and the number of characters consumed.
\<close>

definition surrogate_pair :: "nat \<Rightarrow> string \<Rightarrow> nat \<times> nat" where
  "surrogate_pair r rest =
     (case rest of
        b # u # h1 # h2 # h3 # h4 # _ \<Rightarrow>
          (if b = CHR 0x5C \<and> u = CHR ''u'' then
             (case hex4 h1 h2 h3 h4 of
                Some r1 \<Rightarrow>
                  if 55296 \<le> r \<and> r < 56320 \<and> 56320 \<le> r1 \<and> r1 < 57344
                  then (65536 + (r - 55296) * 1024 + (r1 - 56320), 6)
                  else (65533, 0)
              | None \<Rightarrow> (65533, 0))
           else (65533, 0))
      | _ \<Rightarrow> (65533, 0))"

datatype jmode = JValue | JFirst | JElem | JStr | JNext | JEnd

function scan :: "jmode \<Rightarrow> string list \<Rightarrow> string \<Rightarrow> string \<Rightarrow> string list option" where
  "scan m es acc [] = (if m = JEnd then Some es else None)"
| "scan JValue es acc (c # cs) =
     (if is_ws c then scan JValue es acc cs
      else if c = CHR ''['' then scan JFirst [] [] cs
      else if c = CHR ''n'' \<and> take 3 cs = ''ull'' then scan JEnd [] [] (drop 3 cs)
      else None)"
| "scan JFirst es acc (c # cs) =
     (if is_ws c then scan JFirst es acc cs
      else if c = CHR '']'' then scan JEnd es [] cs
      else if c = CHR 0x22 then scan JStr es [] cs
      else if c = CHR ''n'' \<and> take 3 cs = ''ull'' then scan JNext (es @ [[]]) [] (drop 3 cs)
      else None)"
| "scan JElem es acc (c # cs) =
     (if is_ws c then scan JElem es acc cs
      else if c = CHR 0x22 then scan JStr es [] cs
      else if c = CHR ''n'' \<and> take 3 cs = ''ull'' then scan JNext (es @ [[]]) [] (drop 3 cs)
      else None)"
| "scan JStr es acc (c # cs) =
     (if c = CHR 0x22 then scan JNext (es @ [acc]) [] cs
      else if c = CHR 0x5C then
        (case cs of
           [] \<Rightarrow> None
         | e # rest \<Rightarrow>
             (case simple_escape e of
                Some x \<Rightarrow> scan JStr es (acc @ [x]) rest
              | None \<Rightarrow>
                  if e = CHR ''u'' \<and> 4 \<le> length rest then
                    (case hex4 (rest ! 0) (rest ! 1) (rest ! 2) (rest ! 3) of
                       None \<Rightarrow> None
                     | Some r \<Rightarrow>
                         if 55296 \<le> r \<and> r < 57344 then
                           (case surrogate_pair r (drop 4 rest) of
                              (r2, n) \<Rightarrow> scan JStr es (acc @ utf8_encode r2) (drop (4 + n) rest))
                         else scan JStr es (acc @ utf8_encode r) (drop 4 rest))
                  else None))
      else if (of_char c :: nat) < 32 then None
      else scan JStr es (acc @ [c]) cs)"
| "scan JNext es acc (c # cs) =
     (if is_ws c then scan JNext es acc cs
      else if c = CHR '','' then scan JElem es [] cs
      else if c = CHR '']'' then scan JEnd es [] cs
      else None)"
| "scan JEnd es acc (c # cs) = (if is_ws c then scan JEnd es acc cs else None)"
  by pat_completeness auto
termination
  by (relation "measure (\<lambda>(m, es, acc, inp). length inp)") auto

definition json_Unmarshal :: "string \<Rightarrow> string list option" where
  "json_Unmarshal data = scan JValue [] [] data"

text \<open>The loop of \<open>DecodeLayerOrder\<close>: an entry that does not parse is skipped.\<close>

fun parse_digests :: "string list \<Rightarrow> string list" where
  "parse_digests [] = []"
| "parse_digests (s # ss) =
     (case digest_Parse s of
        None \<Rightarrow> parse_digests ss
      | Some d \<Rightarrow> d # parse_digests ss)"

definition DecodeLayerOrder :: "string \<Rightarrow> string list" where
  "DecodeLayerOrder encoded =
     (if encoded = [] \<or> encoded = ''[]'' then []
      else case json_Unmarshal encoded of
             None \<Rightarrow> []
           | Some strs \<Rightarrow> parse_digests strs)"

section \<open>Notions used in the statements\<close>

text \<open>The option that names the blob of a layer as a device of an fsmeta mount.\<close>

definition device_option :: "snapshotter \<Rightarrow> string \<Rightarrow> string" where
  "device_option s p = ''device='' @ layerBlobPath s p"

text \<open>The blob of a layer exists and is not empty.\<close>

definition blob_ok :: "snapshotter \<Rightarrow> fs \<Rightarrow> string \<Rightarrow> bool" where
  "blob_ok s f p = (case stat_size f (layerBlobPath s p) of None \<Rightarrow> False | Some n \<Rightarrow> n \<noteq> 0)"

text \<open>The fsmeta mount for a chain of parents (newest first).\<close>

definition fsmeta_mount :: "snapshotter \<Rightarrow> string list \<Rightarrow> mount" where
  "fsmeta_mount s ps =
     \<lparr>Source = fsMetaPath s (ps ! 0), Type = ''erofs'',
      Options = [''ro'', ''loop''] @ map (device_option s) (rev ps)\<rparr>"





text \<open>The final directory of a snapshot.\<close>

definition final_path :: "snapshotter \<Rightarrow> string \<Rightarrow> string" where
  "final_path s sid = join (join (root s) ''snapshots'') sid"

text \<open>The options \<open>createSnapshot\<close> passes to the store: an extract key adds the label.\<close>

definition extract_opts :: "string \<Rightarrow> opt list \<Rightarrow> opt list" where
  "extract_opts key opts =
     (if isExtractKey key then opts @ [Map.empty(extractLabel \<mapsto> ''true'')] else opts)"

text \<open>The diff mount: a plain bind of the upper path.\<close>

definition diff_mount :: "snapshotter \<Rightarrow> string \<Rightarrow> mount" where
  "diff_mount s sid = \<lparr>Source = upperPath s sid, Type = ''bind'', Options = [''rw'', ''rbind'']\<rparr>"

text \<open>The characters that occur in a valid digest.\<close>

definition digest_char :: "char \<Rightarrow> bool" where
  "digest_char c = (c \<in> set ''0123456789abcdefsh:'')"

section \<open>Concrete configurations and worlds\<close>

definition cfg_dir :: snapshotter where
  "cfg_dir = \<lparr>root = ''/r'', ovlOptions = [], enableFsverity = False, setImmutable = False,
              defaultWritable = 0, blockMode = False, fsMergeThreshold = 0\<rparr>"

definition cfg_block :: snapshotter where
  "cfg_block = cfg_dir\<lparr>defaultWritable := 1024, blockMode := True\<rparr>"

definition cfg_merge :: snapshotter where
  "cfg_merge = cfg_dir\<lparr>fsMergeThreshold := 1\<rparr>"


definition cfg_immutable :: snapshotter where
  "cfg_immutable = cfg_dir\<lparr>setImmutable := True\<rparr>"

definition cfg_verity :: snapshotter where
  "cfg_verity = cfg_dir\<lparr>enableFsverity := True\<rparr>"

text \<open>A world with one active snapshot \<open>work1\<close> whose upper directory holds a file.\<close>

definition store_work1 :: store where
  "store_work1 =
     \<lparr>recs = [''work1'' \<mapsto> \<lparr>rec_id = ''1'', rec_kind = KindActive, rec_parent = [],
                             rec_parents = [], rec_labels = Map.empty\<rparr>],
      seq = 1\<rparr>"

definition world_work1 :: world where
  "world_work1 =
     \<lparr>wfs = [''/r/snapshots'' \<mapsto> Dir, ''/r/snapshots/1'' \<mapsto> Dir,
             ''/r/snapshots/1/fs'' \<mapsto> Dir, ''/r/snapshots/1/work'' \<mapsto> Dir,
             ''/r/snapshots/1/fs/hello'' \<mapsto> File 5 []],
      wms = store_work1, wmt = Map.empty, wtrace = []\<rparr>"

text \<open>Two committed layers, 2 on top of 1, with an fsmeta at the newer one.\<close>

definition fs_two_layers :: fs where
  "fs_two_layers =
     [''/r/snapshots/1/layer.erofs'' \<mapsto> File 4096 [],
      ''/r/snapshots/2/layer.erofs'' \<mapsto> File 4096 [],
      ''/r/snapshots/2/fsmeta.erofs'' \<mapsto> File 4096 []]"

definition view3 :: snapshot where
  "view3 = \<lparr>ID = ''3'', Kind = KindView, ParentIDs = [''2'', ''1'']\<rparr>"

definition active3 :: snapshot where
  "active3 = \<lparr>ID = ''3'', Kind = KindActive, ParentIDs = [''2'', ''1'']\<rparr>"

text \<open>A fresh snapshotter root.\<close>

definition world_empty :: world where
  "world_empty = \<lparr>wfs = [''/r/snapshots'' \<mapsto> Dir], wms = \<lparr>recs = Map.empty, seq = 0\<rparr>,
                   wmt = Map.empty, wtrace = []\<rparr>"

text \<open>A world with one committed layer \<open>layer1\<close>.\<close>

definition world_layer1 :: world where
  "world_layer1 =
     \<lparr>wfs = [''/r/snapshots'' \<mapsto> Dir, ''/r/snapshots/1'' \<mapsto> Dir,
             ''/r/snapshots/1/fs'' \<mapsto> Dir,
             ''/r/snapshots/1/layer.erofs'' \<mapsto> File 4096 []],
      wms = \<lparr>recs = [''layer1'' \<mapsto> \<lparr>rec_id = ''1'', rec_kind = KindCommitted,
                                       rec_parent = [], rec_parents = [],
                                       rec_labels = Map.empty\<rparr>],
             seq = 1\<rparr>,
      wmt = Map.empty, wtrace = []\<rparr>"

text \<open>
  A world with the committed layer and, on top of it, an active snapshot that carries the
  extract label.
\<close>

definition world_extract :: world where
  "world_extract =
     \<lparr>wfs = [''/r/snapshots'' \<mapsto> Dir, ''/r/snapshots/1'' \<mapsto> Dir,
             ''/r/snapshots/1/fs'' \<mapsto> Dir,
             ''/r/snapshots/1/layer.erofs'' \<mapsto> File 4096 [],
             ''/r/snapshots/2'' \<mapsto> Dir, ''/r/snapshots/2/fs'' \<mapsto> Dir],
      wms = \<lparr>recs = [''layer1'' \<mapsto> \<lparr>rec_id = ''1'', rec_kind = KindCommitted,
                                       rec_parent = [], rec_parents = [],
                                       rec_labels = Map.empty\<rparr>,
                      ''extract-2'' \<mapsto> \<lparr>rec_id = ''2'', rec_kind = KindActive,
                                          rec_parent = ''layer1'', rec_parents = [''1''],
                                          rec_labels = [extractLabel \<mapsto> ''true'']\<rparr>],
             seq = 2\<rparr>,
      wmt = Map.empty, wtrace = []\<rparr>"

text \<open>Two valid digests, and a JSON array of a valid and an invalid entry.\<close>

definition digest_a :: string where
  "digest_a = ''sha256:abc123def456abc123def456abc123def456abc123def456abc123def456abc1''"

definition digest_b :: string where
  "digest_b = ''sha256:1111111111111111111111111111111111111111111111111111111111111111''"

definition mixed_json :: string where
  "mixed_json = CHR ''['' # CHR 0x22 # digest_a
                @ [CHR 0x22, CHR '','', CHR '' '', CHR 0x22] @ ''invalid'' @ [CHR 0x22, CHR '']'']"

section \<open>Properties\<close>

subsection \<open>The fsmeta aggregator\<close>




subsection \<open>Commit\<close>

lemma commit_tx_success:
  "commit_tx flt f st name key opts blob = (None, st1, evs) \<Longrightarrow>
     f blob \<noteq> None \<and> (\<exists>sid. storage_CommitActive st key name opts = Inr (sid, st1))"
  by (auto simp add: commit_tx_def split: if_splits sum.splits)

lemma storage_CommitActive_success:
  "storage_CommitActive st key name opts = Inr (sid, st1) \<Longrightarrow>
     \<exists>r. recs st key = Some r \<and> rec_kind r = KindActive \<and> sid = rec_id r \<and> recs st name = None
       \<and> st1 = st\<lparr>recs := (recs st)(key := None,
                       name \<mapsto> r\<lparr>rec_kind := KindCommitted, rec_labels := apply_opts opts\<rparr>)\<rparr>"
  by (auto simp add: storage_CommitActive_def split: if_splits option.splits)

lemma Commit_success:
  assumes ok: "fst (Commit s flt name key opts w) = None"
  shows "\<exists>r. recs (wms w) key = Some r
     \<and> rec_kind r = KindActive
     \<and> wfs (snd (Commit s flt name key opts w)) (layerBlobPath s (rec_id r)) \<noteq> None
     \<and> recs (wms (snd (Commit s flt name key opts w))) name
         = Some (r\<lparr>rec_kind := KindCommitted, rec_labels := apply_opts opts\<rparr>)
     \<and> (enableFsverity s \<longrightarrow> FVerityEnable \<notin> flt)"
proof -
  obtain r where r: "recs (wms w) key = Some r"
    using ok by (cases "recs (wms w) key") (simp_all add: Commit_def storage_GetInfo_def)
  obtain cerr f1 mt1 where cb: "commit_blob s flt (wfs w) (wmt w) (rec_id r) = (cerr, f1, mt1)"
    by (cases "commit_blob s flt (wfs w) (wmt w) (rec_id r)") auto
  obtain aerr evs where ca: "commit_attrs s flt (layerBlobPath s (rec_id r)) = (aerr, evs)"
    by (cases "commit_attrs s flt (layerBlobPath s (rec_id r))") auto
  obtain terr st1 evs1 where
    ct: "commit_tx flt f1 (wms w) name key opts (layerBlobPath s (rec_id r)) = (terr, st1, evs1)"
    by (cases "commit_tx flt f1 (wms w) name key opts (layerBlobPath s (rec_id r))") auto
  have c: "cerr = None"
    using ok r cb by (cases cerr) (simp_all add: Commit_def storage_GetInfo_def)
  have a: "aerr = None"
    using ok r cb ca c by (cases aerr) (simp_all add: Commit_def storage_GetInfo_def)
  have res: "Commit s flt name key opts w =
       (terr, w\<lparr>wfs := f1, wmt := mt1, wms := st1, wtrace := wtrace w @ evs @ evs1\<rparr>)"
    using r cb ca ct c a by (simp add: Commit_def storage_GetInfo_def)
  have t: "terr = None" using ok res by simp
  from commit_tx_success [OF ct [unfolded t]]
  obtain sid where b: "f1 (layerBlobPath s (rec_id r)) \<noteq> None"
    and sc: "storage_CommitActive (wms w) key name opts = Inr (sid, st1)" by blast
  from storage_CommitActive_success [OF sc] r
  have k: "rec_kind r = KindActive"
    and st1: "st1 = (wms w)\<lparr>recs := (recs (wms w))(key := None,
                       name \<mapsto> r\<lparr>rec_kind := KindCommitted, rec_labels := apply_opts opts\<rparr>)\<rparr>"
    by auto
  have v: "enableFsverity s \<longrightarrow> FVerityEnable \<notin> flt"
    using ca a by (auto simp add: commit_attrs_def split: if_splits)
  show ?thesis
    using r k b v unfolding res st1 by simp
qed

lemma Commit_unfold:
  "Commit s flt name key opts w =
     (case recs (wms w) key of
        None \<Rightarrow> (Some (ErrNotFound key), w)
      | Some r \<Rightarrow>
          (case commit_blob s flt (wfs w) (wmt w) (rec_id r) of
             (Some e, f1, mt1) \<Rightarrow> (Some e, w\<lparr>wfs := f1, wmt := mt1\<rparr>)
           | (None, f1, mt1) \<Rightarrow>
               (case commit_attrs s flt (layerBlobPath s (rec_id r)) of
                  (Some e, evs) \<Rightarrow> (Some e, w\<lparr>wfs := f1, wmt := mt1\<rparr>)
                | (None, evs) \<Rightarrow>
                    (case commit_tx flt f1 (wms w) name key opts (layerBlobPath s (rec_id r)) of
                       (r, st1, evs1) \<Rightarrow>
                         (r, w\<lparr>wfs := f1, wmt := mt1, wms := st1,
                               wtrace := wtrace w @ evs @ evs1\<rparr>)))))"
  by (simp add: Commit_def storage_GetInfo_def split: option.splits)

lemma commit_tx_failure:
  "commit_tx flt f st name key opts blob = (Some e, st1, evs) \<Longrightarrow> st1 = st"
  by (auto simp add: commit_tx_def split: if_splits sum.splits)

lemma Commit_failure_store:
  assumes "fst (Commit s flt name key opts w) \<noteq> None"
  shows "wms (snd (Commit s flt name key opts w)) = wms w"
proof (cases "recs (wms w) key")
  case None
  then show ?thesis by (simp add: Commit_unfold)
next
  case (Some r)
  obtain cerr f1 mt1 where cb: "commit_blob s flt (wfs w) (wmt w) (rec_id r) = (cerr, f1, mt1)"
    by (cases "commit_blob s flt (wfs w) (wmt w) (rec_id r)") auto
  obtain aerr evs where ca: "commit_attrs s flt (layerBlobPath s (rec_id r)) = (aerr, evs)"
    by (cases "commit_attrs s flt (layerBlobPath s (rec_id r))") auto
  obtain terr st1 evs1 where
    ct: "commit_tx flt f1 (wms w) name key opts (layerBlobPath s (rec_id r)) = (terr, st1, evs1)"
    by (cases "commit_tx flt f1 (wms w) name key opts (layerBlobPath s (rec_id r))") auto
  show ?thesis
  proof (cases cerr)
    case (Some e) then show ?thesis using \<open>recs (wms w) key = Some r\<close> cb
      by (simp add: Commit_unfold)
  next
    case None
    note c = this
    show ?thesis
    proof (cases aerr)
      case (Some e) then show ?thesis using \<open>recs (wms w) key = Some r\<close> cb ca c
        by (simp add: Commit_unfold)
    next
      case None
      have res: "Commit s flt name key opts w =
         (terr, w\<lparr>wfs := f1, wmt := mt1, wms := st1, wtrace := wtrace w @ evs @ evs1\<rparr>)"
        using \<open>recs (wms w) key = Some r\<close> cb ca ct c None by (simp add: Commit_unfold)
      with assms obtain e where "terr = Some e" by auto
      with commit_tx_failure ct have "st1 = wms w" by blast
      then show ?thesis using res by simp
    qed
  qed
qed

lemma ConvertErofs_immutable_irrelevant:
  "ConvertErofs (flt - {FSetImmutable}) f blob src = ConvertErofs flt f blob src"
  by (simp add: ConvertErofs_def)

lemma convertDirToErofs_immutable_irrelevant:
  "convertDirToErofs (flt - {FSetImmutable}) f blob upper = convertDirToErofs flt f blob upper"
  by (simp add: convertDirToErofs_def ConvertErofs_immutable_irrelevant)

lemma MkdirAll_immutable_irrelevant:
  "MkdirAll (flt - {FSetImmutable}) f p = MkdirAll flt f p"
  by (simp add: MkdirAll_def)

lemma commitBlock_immutable_irrelevant:
  "commitBlock s (flt - {FSetImmutable}) f mt blob sid = commitBlock s flt f mt blob sid"
  by (simp add: commitBlock_def convertDirToErofs_immutable_irrelevant
      MkdirAll_immutable_irrelevant Let_def cong: option.case_cong if_cong)

lemma commit_blob_immutable_irrelevant:
  "commit_blob s (flt - {FSetImmutable}) f mt sid = commit_blob s flt f mt sid"
  by (simp add: commit_blob_def commitBlock_immutable_irrelevant Let_def cong: option.case_cong)

lemma commit_tx_immutable_irrelevant:
  "commit_tx (flt - {FSetImmutable}) f st name key opts blob = commit_tx flt f st name key opts blob"
  by (simp add: commit_tx_def split: sum.splits prod.splits)

lemma commit_attrs_immutable:
  "fst (commit_attrs s (flt - {FSetImmutable}) blob) = fst (commit_attrs s flt blob)"
  by (simp add: commit_attrs_def)

lemma commit_attrs_warn:
  "setImmutable s \<Longrightarrow> FSetImmutable \<in> flt \<Longrightarrow> commit_attrs s flt blob = (None, evs)
     \<Longrightarrow> EvWarn ''failed to set IMMUTABLE_FL'' \<in> set evs"
  by (auto simp add: commit_attrs_def split: if_splits)

lemma Commit_immutable_same:
  "fst (Commit s (flt - {FSetImmutable}) name key opts w) = fst (Commit s flt name key opts w)
   \<and> wms (snd (Commit s (flt - {FSetImmutable}) name key opts w))
       = wms (snd (Commit s flt name key opts w))
   \<and> wfs (snd (Commit s (flt - {FSetImmutable}) name key opts w))
       = wfs (snd (Commit s flt name key opts w))"
proof (cases "recs (wms w) key")
  case None
  then show ?thesis by (simp add: Commit_unfold)
next
  case (Some r)
  obtain cerr f1 mt1 where cb: "commit_blob s flt (wfs w) (wmt w) (rec_id r) = (cerr, f1, mt1)"
    by (cases "commit_blob s flt (wfs w) (wmt w) (rec_id r)") auto
  obtain aerr evs where ca: "commit_attrs s flt (layerBlobPath s (rec_id r)) = (aerr, evs)"
    by (cases "commit_attrs s flt (layerBlobPath s (rec_id r))") auto
  obtain aerr' evs' where ca': "commit_attrs s (flt - {FSetImmutable}) (layerBlobPath s (rec_id r)) = (aerr', evs')"
    by (cases "commit_attrs s (flt - {FSetImmutable}) (layerBlobPath s (rec_id r))") auto
  have ae: "aerr' = aerr"
    using commit_attrs_immutable [of s flt "layerBlobPath s (rec_id r)"] ca ca' by simp
  obtain terr st1 evs1 where
    ct: "commit_tx flt f1 (wms w) name key opts (layerBlobPath s (rec_id r)) = (terr, st1, evs1)"
    by (cases "commit_tx flt f1 (wms w) name key opts (layerBlobPath s (rec_id r))") auto
  show ?thesis
    using Some cb ca ca' ct ae
    by (cases cerr; cases aerr)
       (simp_all add: Commit_unfold commit_blob_immutable_irrelevant commit_tx_immutable_irrelevant)
qed

lemma Commit_success_trace:
  assumes ok: "fst (Commit s flt name key opts w) = None"
  shows "\<exists>r evs evs1. recs (wms w) key = Some r
        \<and> commit_attrs s flt (layerBlobPath s (rec_id r)) = (None, evs)
        \<and> wtrace (snd (Commit s flt name key opts w)) = wtrace w @ evs @ evs1"
proof -
  obtain r where r: "recs (wms w) key = Some r"
    using ok by (cases "recs (wms w) key") (simp_all add: Commit_unfold)
  obtain cerr f1 mt1 where cb: "commit_blob s flt (wfs w) (wmt w) (rec_id r) = (cerr, f1, mt1)"
    by (cases "commit_blob s flt (wfs w) (wmt w) (rec_id r)") auto
  obtain aerr evs where ca: "commit_attrs s flt (layerBlobPath s (rec_id r)) = (aerr, evs)"
    by (cases "commit_attrs s flt (layerBlobPath s (rec_id r))") auto
  obtain terr st1 evs1 where
    ct: "commit_tx flt f1 (wms w) name key opts (layerBlobPath s (rec_id r)) = (terr, st1, evs1)"
    by (cases "commit_tx flt f1 (wms w) name key opts (layerBlobPath s (rec_id r))") auto
  have c: "cerr = None"
    using ok r cb by (cases cerr) (simp_all add: Commit_unfold)
  have a: "aerr = None"
    using ok r cb ca c by (cases aerr) (simp_all add: Commit_unfold)
  have res: "Commit s flt name key opts w =
       (terr, w\<lparr>wfs := f1, wmt := mt1, wms := st1, wtrace := wtrace w @ evs @ evs1\<rparr>)"
    using r cb ca ct c a by (simp add: Commit_unfold)
  show ?thesis using r ca a res by simp
qed


text \<open>
  Claim C3, as stated, fails: \<open>Commit\<close> writes no label. In directory mode the upper
  directory of \<open>work1\<close> is converted, the commit succeeds, and the committed record
  \<open>layer1\<close> has no \<open>layer-blob-path\<close> label.
\<close>

theorem Commit_labels_counterexample:
  "fst (Commit cfg_dir {} ''layer1'' ''work1'' [] world_work1) = None
   \<and> (\<exists>i. Stat (snd (Commit cfg_dir {} ''layer1'' ''work1'' [] world_work1)) ''layer1'' = Inr i
          \<and> Labels i LabelLayerBlobPath = None)"
  by (simp add: Commit_def commit_blob_def commit_attrs_def commit_tx_def
      commitBlock_def convertDirToErofs_def ConvertErofs_def
      storage_GetInfo_def storage_CommitActive_def Stat_def apply_opts_def
      cfg_dir_def world_work1_def store_work1_def layerBlobPath_def writablePath_def
      upperPath_def join_def Let_def)



text \<open>
  Claim C3, amended: after every successful \<open>Commit\<close>, whichever path produced the
  blob, the blob exists at the conventional path \<open>layer.erofs\<close> in the directory of the
  snapshot, and \<open>Stat\<close> of the committed name returns a committed record whose labels
  are exactly those of the caller's options; \<open>Commit\<close> adds no label of its own.
\<close>

theorem Commit_success_record:
  assumes "fst (Commit s flt name key opts w) = None"
  shows "\<exists>r i. recs (wms w) key = Some r
           \<and> wfs (snd (Commit s flt name key opts w)) (layerBlobPath s (rec_id r)) \<noteq> None
           \<and> Stat (snd (Commit s flt name key opts w)) name = Inr i
           \<and> InfoKind i = KindCommitted
           \<and> Labels i = apply_opts opts"
  using Commit_success [OF assms] by (auto simp add: Stat_def storage_GetInfo_def)

theorem Commit_success_record_witness:
  "fst (Commit cfg_dir {} ''layer1'' ''work1'' [Map.empty(''a'' \<mapsto> ''b'')] world_work1) = None
   \<and> (\<exists>r i. recs (wms world_work1) ''work1'' = Some r
         \<and> wfs (snd (Commit cfg_dir {} ''layer1'' ''work1'' [Map.empty(''a'' \<mapsto> ''b'')]
                        world_work1))
               (layerBlobPath cfg_dir (rec_id r)) \<noteq> None
         \<and> Stat (snd (Commit cfg_dir {} ''layer1'' ''work1'' [Map.empty(''a'' \<mapsto> ''b'')]
                        world_work1)) ''layer1'' = Inr i
         \<and> InfoKind i = KindCommitted
         \<and> Labels i = apply_opts [Map.empty(''a'' \<mapsto> ''b'')])"
proof -
  have h: "fst (Commit cfg_dir {} ''layer1'' ''work1'' [Map.empty(''a'' \<mapsto> ''b'')] world_work1)
             = None"
    by (simp add: Commit_def commit_blob_def commit_attrs_def commit_tx_def
        commitBlock_def convertDirToErofs_def ConvertErofs_def
        storage_GetInfo_def storage_CommitActive_def
        cfg_dir_def world_work1_def store_work1_def layerBlobPath_def writablePath_def
        upperPath_def join_def Let_def)
  show ?thesis
    using h Commit_success_record [OF h] by blast
qed

text \<open>
  Claim C10: with the set-immutable option on, a failure to set the IMMUTABLE attribute
  does not fail the \<open>Commit\<close>: a commit that succeeds without that failure succeeds
  with it, commits the same record, and logs a warning. A failure to enable fsverity, when
  fsverity is configured, fails the \<open>Commit\<close> and leaves the store as it was.
\<close>

theorem Commit_immutable_failure_logged_only:
  "(setImmutable s \<and> FSetImmutable \<in> flt
      \<and> fst (Commit s (flt - {FSetImmutable}) name key opts w) = None
    \<longrightarrow> fst (Commit s flt name key opts w) = None
        \<and> wms (snd (Commit s flt name key opts w))
            = wms (snd (Commit s (flt - {FSetImmutable}) name key opts w))
        \<and> (\<exists>r. recs (wms (snd (Commit s flt name key opts w))) name = Some r
                \<and> rec_kind r = KindCommitted)
        \<and> EvWarn ''failed to set IMMUTABLE_FL''
            \<in> set (wtrace (snd (Commit s flt name key opts w))))
   \<and> (enableFsverity s \<and> FVerityEnable \<in> flt
    \<longrightarrow> fst (Commit s flt name key opts w) \<noteq> None
        \<and> wms (snd (Commit s flt name key opts w)) = wms w)"
proof (intro conjI impI)
  assume h: "setImmutable s \<and> FSetImmutable \<in> flt
      \<and> fst (Commit s (flt - {FSetImmutable}) name key opts w) = None"
  then show ok: "fst (Commit s flt name key opts w) = None"
    using Commit_immutable_same [of s flt name key opts w] by simp
  show "wms (snd (Commit s flt name key opts w))
            = wms (snd (Commit s (flt - {FSetImmutable}) name key opts w))"
    using Commit_immutable_same [of s flt name key opts w] by simp
  from Commit_success [OF ok]
  show "\<exists>r. recs (wms (snd (Commit s flt name key opts w))) name = Some r
                \<and> rec_kind r = KindCommitted"
    by auto
  from Commit_success_trace [OF ok] obtain r evs evs1 where
    "commit_attrs s flt (layerBlobPath s (rec_id r)) = (None, evs)"
    "recs (wms w) key = Some r"
    "wtrace (snd (Commit s flt name key opts w)) = wtrace w @ evs @ evs1" by blast
  with commit_attrs_warn [of s flt "layerBlobPath s (rec_id r)" evs] h
  show "EvWarn ''failed to set IMMUTABLE_FL''
            \<in> set (wtrace (snd (Commit s flt name key opts w)))"
    by simp
next
  assume h: "enableFsverity s \<and> FVerityEnable \<in> flt"
  show ne: "fst (Commit s flt name key opts w) \<noteq> None"
  proof
    assume "fst (Commit s flt name key opts w) = None"
    from Commit_success [OF this] h show False by blast
  qed
  show "wms (snd (Commit s flt name key opts w)) = wms w"
    using Commit_failure_store [OF ne] .
qed

theorem Commit_immutable_failure_logged_only_witness:
  "setImmutable cfg_immutable \<and> FSetImmutable \<in> {FSetImmutable}
   \<and> fst (Commit cfg_immutable ({FSetImmutable} - {FSetImmutable}) ''layer1'' ''work1'' []
             world_work1) = None
   \<and> fst (Commit cfg_immutable {FSetImmutable} ''layer1'' ''work1'' [] world_work1) = None
   \<and> (\<exists>r. recs (wms (snd (Commit cfg_immutable {FSetImmutable} ''layer1'' ''work1'' []
                              world_work1))) ''layer1'' = Some r
          \<and> rec_kind r = KindCommitted)
   \<and> EvWarn ''failed to set IMMUTABLE_FL''
        \<in> set (wtrace (snd (Commit cfg_immutable {FSetImmutable} ''layer1'' ''work1'' []
                               world_work1)))
   \<and> enableFsverity cfg_verity \<and> FVerityEnable \<in> {FVerityEnable}
   \<and> fst (Commit cfg_verity {FVerityEnable} ''layer1'' ''work1'' [] world_work1) \<noteq> None
   \<and> wms (snd (Commit cfg_verity {FVerityEnable} ''layer1'' ''work1'' [] world_work1))
       = wms world_work1"
proof -
  have h1: "setImmutable cfg_immutable \<and> FSetImmutable \<in> {FSetImmutable}
      \<and> fst (Commit cfg_immutable ({FSetImmutable} - {FSetImmutable}) ''layer1'' ''work1'' []
                world_work1) = None"
    by (simp add: Commit_def commit_blob_def commit_attrs_def commit_tx_def
        commitBlock_def convertDirToErofs_def ConvertErofs_def
        storage_GetInfo_def storage_CommitActive_def cfg_immutable_def
        cfg_dir_def world_work1_def store_work1_def layerBlobPath_def writablePath_def
        upperPath_def join_def Let_def)
  have h2: "enableFsverity cfg_verity \<and> FVerityEnable \<in> {FVerityEnable}"
    by (simp add: cfg_verity_def cfg_dir_def)
  show ?thesis
    using h1 h2
      Commit_immutable_failure_logged_only
        [of cfg_immutable "{FSetImmutable}" "''layer1''" "''work1''" "[]" world_work1]
      Commit_immutable_failure_logged_only
        [of cfg_verity "{FVerityEnable}" "''layer1''" "''work1''" "[]" world_work1]
    by blast
qed

subsection \<open>The mount planner and the block executor\<close>

lemma show_nat_0: "show_nat 0 = ''0''"
  by (simp add: show_nat.simps digit_char_def)

lemma show_nat_1: "show_nat (Suc 0) = ''1''"
  by (simp add: show_nat.simps digit_char_def)

lemma show_nat_2: "show_nat (Suc (Suc 0)) = ''2''"
  by (simp add: show_nat.simps digit_char_def)

lemma device_options_all:
  "list_all (blob_ok s f) ps \<Longrightarrow> device_options s f ps = Some (map (device_option s) ps)"
  by (induction ps) (auto simp add: blob_ok_def device_option_def Let_def split: option.splits)

lemma mountFsMeta_some:
  assumes "\<not> blockMode s"
      and "stat_size f (fsMetaPath s (ParentIDs snap ! 0)) = Some n" "n \<noteq> 0"
      and "list_all (blob_ok s f) (ParentIDs snap)"
  shows "mountFsMeta s f snap 0 = Some (fsmeta_mount s (ParentIDs snap))"
  using assms device_options_all [of s f "rev (ParentIDs snap)"]
  by (simp add: mountFsMeta_def fsmeta_mount_def Let_def)

text \<open>
  Claim C4, as stated, fails: in directory mode the \<open>device=\<close> options of the fsmeta
  mount list the blobs from the oldest layer to the newest, and in block mode no fsmeta
  mount is produced at all.
\<close>

theorem fsmeta_device_order_counterexample:
  "templateMounts cfg_merge {} fs_two_layers view3
     = Inr [\<lparr>Source = ''/r/snapshots/2/fsmeta.erofs'', Type = ''erofs'',
             Options = [''ro'', ''loop'', ''device=/r/snapshots/1/layer.erofs'',
                        ''device=/r/snapshots/2/layer.erofs'']\<rparr>]
   \<and> templateMounts cfg_merge {} fs_two_layers view3
     \<noteq> Inr [\<lparr>Source = ''/r/snapshots/2/fsmeta.erofs'', Type = ''erofs'',
             Options = [''ro'', ''loop'', ''device=/r/snapshots/2/layer.erofs'',
                        ''device=/r/snapshots/1/layer.erofs'']\<rparr>]
   \<and> mountFsMeta (cfg_merge\<lparr>blockMode := True\<rparr>) fs_two_layers view3 0 = None"
  by (simp add: templateMounts_def overlayStack_def mountFsMeta_def stat_size_def fsMetaPath_def
      layerBlobPath_def join_def cfg_merge_def cfg_dir_def fs_two_layers_def view3_def Let_def)


text \<open>
  Claim C4, amended: in block mode \<open>mountFsMeta\<close> never gives a mount. In directory
  mode, with fsmerge enabled (threshold above 0; the planner does not compare the chain
  length with the threshold), a chain of at least two parents, an \<open>fsmeta.erofs\<close> of
  non-zero size at the immediate parent and every layer blob present with non-zero size,
  the lower layers are one \<open>erofs\<close> mount \<open>ro,loop\<close> on the fsmeta file whose
  \<open>device=\<close> options list the blobs from the oldest layer to the newest; for a view
  it is the whole plan, for an active snapshot the overlay on \<open>{{ mount 0 }}\<close> follows.
\<close>

theorem fsmeta_mount_plan:
  "(blockMode s \<longrightarrow> mountFsMeta s f snap i = None)
   \<and> (\<not> blockMode s \<and> fsMergeThreshold s > 0 \<and> length (ParentIDs snap) \<ge> 2
       \<and> (\<exists>n. stat_size f (fsMetaPath s (ParentIDs snap ! 0)) = Some n \<and> n \<noteq> 0)
       \<and> list_all (blob_ok s f) (ParentIDs snap)
      \<longrightarrow> (Kind snap = KindView
            \<longrightarrow> templateMounts s flt f snap = Inr [fsmeta_mount s (ParentIDs snap)])
        \<and> (Kind snap = KindActive
            \<longrightarrow> templateMounts s flt f snap
                = Inr [fsmeta_mount s (ParentIDs snap),
                       overlay_mount ([''workdir='' @ workPath s (ID snap),
                                       ''upperdir='' @ upperPath s (ID snap),
                                       ''lowerdir={{ mount 0 }}''] @ ovlOptions s)]))"
proof (intro conjI impI)
  assume "blockMode s" then show "mountFsMeta s f snap i = None"
    by (simp add: mountFsMeta_def)
next
  assume h: "\<not> blockMode s \<and> fsMergeThreshold s > 0 \<and> length (ParentIDs snap) \<ge> 2
       \<and> (\<exists>n. stat_size f (fsMetaPath s (ParentIDs snap ! 0)) = Some n \<and> n \<noteq> 0)
       \<and> list_all (blob_ok s f) (ParentIDs snap)"
  then obtain p ps where ps: "ParentIDs snap = p # ps"
    by (cases "ParentIDs snap") auto
  from h have m: "mountFsMeta s f snap 0 = Some (fsmeta_mount s (ParentIDs snap))"
    using mountFsMeta_some by blast
  have l: "\<And>ms fi. lowerLayerMounts s f snap 0 (ParentIDs snap) ms fi
             = Inr (ms @ [fsmeta_mount s (ParentIDs snap)], length ms)"
    using h m unfolding ps by simp
  have ne: "ParentIDs snap \<noteq> []" and n1: "length (ParentIDs snap) \<noteq> Suc 0"
    using h by auto
  { assume "Kind snap = KindView"
    then show "templateMounts s flt f snap = Inr [fsmeta_mount s (ParentIDs snap)]"
      using h l ne n1 by (simp add: templateMounts_def overlayStack_def) }
  { assume "Kind snap = KindActive"
    then show "templateMounts s flt f snap
                = Inr [fsmeta_mount s (ParentIDs snap),
                       overlay_mount ([''workdir='' @ workPath s (ID snap),
                                       ''upperdir='' @ upperPath s (ID snap),
                                       ''lowerdir={{ mount 0 }}''] @ ovlOptions s)]"
      using h l ne n1 by (simp add: templateMounts_def overlayStack_def activeLayerMounts_def show_nat_0) }
qed


theorem fsmeta_mount_plan_witness:
  "blockMode cfg_block \<and> mountFsMeta cfg_block fs_two_layers view3 0 = None
   \<and> \<not> blockMode cfg_merge \<and> fsMergeThreshold cfg_merge > 0
   \<and> length (ParentIDs view3) \<ge> 2 \<and> length (ParentIDs active3) \<ge> 2
   \<and> (\<exists>n. stat_size fs_two_layers (fsMetaPath cfg_merge (ParentIDs view3 ! 0)) = Some n
          \<and> n \<noteq> 0)
   \<and> list_all (blob_ok cfg_merge fs_two_layers) (ParentIDs view3)
   \<and> Kind view3 = KindView \<and> Kind active3 = KindActive
   \<and> templateMounts cfg_merge {} fs_two_layers view3
       = Inr [fsmeta_mount cfg_merge (ParentIDs view3)]
   \<and> templateMounts cfg_merge {} fs_two_layers active3
       = Inr [fsmeta_mount cfg_merge (ParentIDs active3),
              overlay_mount ([''workdir='' @ workPath cfg_merge (ID active3),
                              ''upperdir='' @ upperPath cfg_merge (ID active3),
                              ''lowerdir={{ mount 0 }}''] @ ovlOptions cfg_merge)]"
proof -
  have a: "blockMode cfg_block" by (simp add: cfg_block_def cfg_dir_def)
  have b: "\<not> blockMode cfg_merge \<and> fsMergeThreshold cfg_merge > 0
     \<and> length (ParentIDs view3) \<ge> 2 \<and> length (ParentIDs active3) \<ge> 2
     \<and> Kind view3 = KindView \<and> Kind active3 = KindActive
     \<and> ParentIDs active3 = ParentIDs view3"
    by (simp add: cfg_merge_def cfg_dir_def view3_def active3_def)
  have c: "\<exists>n. stat_size fs_two_layers (fsMetaPath cfg_merge (ParentIDs view3 ! 0)) = Some n
             \<and> n \<noteq> 0"
    by (simp add: stat_size_def fs_two_layers_def fsMetaPath_def join_def cfg_merge_def
        cfg_dir_def view3_def)
  have d: "list_all (blob_ok cfg_merge fs_two_layers) (ParentIDs view3)"
    by (simp add: blob_ok_def stat_size_def fs_two_layers_def layerBlobPath_def join_def
        cfg_merge_def cfg_dir_def view3_def)
  show ?thesis
    using a b c d
      fsmeta_mount_plan [of cfg_block fs_two_layers view3 0 "{}"]
      fsmeta_mount_plan [of cfg_merge fs_two_layers view3 0 "{}"]
      fsmeta_mount_plan [of cfg_merge fs_two_layers active3 0 "{}"]
    by simp
qed








lemma MkdirAll_flt: "MkdirAll flt f p = Some f1 \<Longrightarrow> FMkdirAll \<notin> flt"
  by (auto simp add: MkdirAll_def Let_def split: if_splits)









subsection \<open>Prepare and View\<close>

text \<open>The definitions that evaluate a run on a concrete world.\<close>

lemmas eval_defs =
  Prepare_def createSnapshot_def createSnapshot_defer_def createSnapshot_body_def
  createSnapshot_after_def createSnapshot_tx_def prepareDirectory_def ensureMarkerFile_def
  createWritableLayer_def mkfs_ext4_args_def writablePath_def
  storage_CreateSnapshot_def storage_GetInfo_def storage_GetSnapshot_def
  upperDirectoryPermission_def
  generateFsMeta_def mounts_def diffMounts_def MkdirAll_def is_file_def snapshotDirOf_def
  templateMounts_def singleLayerMounts_def writableMount_def roFlag_def
  overlayStack_def activeLayerMounts_def
  lowerPath_def layerBlobPath_def upperPath_def workPath_def overlay_mount_def erofs_mount_def
  isExtractKey_def path_Base_def UnpackKeyPrefix_def isExtractSnapshot_def extractLabel_def
  apply_opts_def Stat_def Mounts_def Rename_def RemoveAll_def is_under_def erofsLayerMarker_def
  show_nat_0 show_nat_1 show_nat_2 join_def Let_def

lemma prepareDirectory_td:
  "prepareDirectory s flt f dir k tmp = (td, None, f1) \<Longrightarrow> td = join dir (''new-'' @ tmp)"
  by (auto simp add: prepareDirectory_def Let_def split: if_splits option.splits)

lemma createSnapshot_tx_cases:
  "(\<exists>snap st1 i. storage_CreateSnapshot st k key parent opts = Inr (snap, st1)
       \<and> storage_GetInfo st1 key = Inr (ID snap, i)
       \<and> createSnapshot_tx s flt k key parent opts td f st
           = \<lparr>tx_err = None, tx_snap = snap, tx_info = i, tx_td = [],
              tx_path = join (join (root s) ''snapshots'') (ID snap),
              tx_fs = Rename f td (join (join (root s) ''snapshots'') (ID snap)),
              tx_store = st1,
              tx_events = [EvCreateSnapshot key (ID snap),
                           EvRename td (join (join (root s) ''snapshots'') (ID snap))]\<rparr>)
   \<or> (tx_err (createSnapshot_tx s flt k key parent opts td f st) \<noteq> None
       \<and> tx_td (createSnapshot_tx s flt k key parent opts td f st) = td
       \<and> tx_fs (createSnapshot_tx s flt k key parent opts td f st) = f
       \<and> (\<forall>a b. EvRename a b \<notin> set (tx_events (createSnapshot_tx s flt k key parent opts td f st))))"
proof (cases "storage_CreateSnapshot st k key parent opts")
  case (Inl e)
  then show ?thesis by (simp add: createSnapshot_tx_def)
next
  case (Inr p)
  then obtain snap st1 where c: "storage_CreateSnapshot st k key parent opts = Inr (snap, st1)"
    by (cases p) auto
  then have g: "storage_GetInfo st1 key
      = Inr (ID snap, \<lparr>Name = key, Parent = parent, InfoKind = k, Labels = apply_opts opts\<rparr>)"
    by (auto simp add: storage_CreateSnapshot_def storage_GetInfo_def Let_def split: if_splits)
  show ?thesis
    using c g
    by (simp add: createSnapshot_tx_def Let_def upperDirectoryPermission_def)
qed


lemma storage_CreateSnapshot_success:
  "storage_CreateSnapshot st k key parent opts = Inr (snap, st1) \<Longrightarrow>
     ID snap = show_nat (Suc (seq st)) \<and> Kind snap = k \<and> recs st key = None
     \<and> (k = KindActive \<or> k = KindView)
     \<and> recs st1 = (recs st)(key \<mapsto> \<lparr>rec_id = ID snap, rec_kind = k, rec_parent = parent,
                                      rec_parents = ParentIDs snap,
                                      rec_labels = apply_opts opts\<rparr>)"
  by (auto simp add: storage_CreateSnapshot_def Let_def split: if_splits)

lemma createSnapshot_body_success:
  assumes "createSnapshot_body s flt tmp k key parent opts w = (Inr ms, td', path', w')"
  shows "\<exists>snap st1 i td f1.
           prepareDirectory s flt (wfs w) (join (root s) ''snapshots'') k tmp = (td, None, f1)
         \<and> storage_CreateSnapshot (wms w) k key parent (extract_opts key opts) = Inr (snap, st1)
         \<and> storage_GetInfo st1 key = Inr (ID snap, i)
         \<and> createSnapshot_after s flt k key snap i (Rename f1 td (final_path s (ID snap)))
             = (Inr ms, wfs w')
         \<and> wms w' = st1 \<and> wmt w' = wmt w
         \<and> wtrace w' = wtrace w @ [EvMkdirTemp td, EvBegin, EvCreateSnapshot key (ID snap),
                                     EvRename td (final_path s (ID snap)), EvCommit]"
proof -
  obtain td perr f1 where
    p: "prepareDirectory s flt (wfs w) (join (root s) ''snapshots'') k tmp = (td, perr, f1)"
    by (cases "prepareDirectory s flt (wfs w) (join (root s) ''snapshots'') k tmp") auto
  have pn: "perr = None"
    using assms p by (cases perr) (simp_all add: createSnapshot_body_def)
  define v where "v = createSnapshot_tx s flt k key parent (extract_opts key opts) td f1 (wms w)"
  obtain res f4 where
    a: "createSnapshot_after s flt k key (tx_snap v) (tx_info v) (tx_fs v) = (res, f4)"
    by (cases "createSnapshot_after s flt k key (tx_snap v) (tx_info v) (tx_fs v)") auto
  have unf: "createSnapshot_body s flt tmp k key parent opts w =
       (if tx_err v \<noteq> None \<or> FTxCommit \<in> flt then
               (Inl (case tx_err v of Some e \<Rightarrow> e | None \<Rightarrow> ErrTxCommit), tx_td v, tx_path v,
                w\<lparr>wfs := tx_fs v,
                  wtrace := (wtrace w @ [EvMkdirTemp td, EvBegin] @ tx_events v) @ [EvRollback]\<rparr>)
             else (res, tx_td v, tx_path v,
                     w\<lparr>wfs := f4, wms := tx_store v,
                       wtrace := (wtrace w @ [EvMkdirTemp td, EvBegin] @ tx_events v) @ [EvCommit]\<rparr>))"
    using p pn a
    by (simp add: createSnapshot_body_def v_def extract_opts_def Let_def)
  from assms have ok: "tx_err v = None" "FTxCommit \<notin> flt"
    unfolding unf by (auto split: if_splits)
  from createSnapshot_tx_cases [of "wms w" k key parent "extract_opts key opts" s flt td f1] ok
  obtain snap st1 i where
    c: "storage_CreateSnapshot (wms w) k key parent (extract_opts key opts) = Inr (snap, st1)"
    and g: "storage_GetInfo st1 key = Inr (ID snap, i)"
    and vv: "v = \<lparr>tx_err = None, tx_snap = snap, tx_info = i, tx_td = [],
              tx_path = join (join (root s) ''snapshots'') (ID snap),
              tx_fs = Rename f1 td (join (join (root s) ''snapshots'') (ID snap)),
              tx_store = st1,
              tx_events = [EvCreateSnapshot key (ID snap),
                           EvRename td (join (join (root s) ''snapshots'') (ID snap))]\<rparr>"
    unfolding v_def by auto
  from assms ok have r: "res = Inr ms"
    and w': "w' = w\<lparr>wfs := f4, wms := tx_store v,
                  wtrace := (wtrace w @ [EvMkdirTemp td, EvBegin] @ tx_events v) @ [EvCommit]\<rparr>"
    unfolding unf by auto
  show ?thesis
    using p pn c g a r w' vv by (simp add: final_path_def)
qed

lemma createSnapshot_success:
  assumes "createSnapshot s flt tmp k key parent opts w = (Inr ms, w')"
  shows "\<exists>snap st1 i td f1.
           prepareDirectory s flt (wfs w) (join (root s) ''snapshots'') k tmp = (td, None, f1)
         \<and> storage_CreateSnapshot (wms w) k key parent (extract_opts key opts) = Inr (snap, st1)
         \<and> storage_GetInfo st1 key = Inr (ID snap, i)
         \<and> createSnapshot_after s flt k key snap i (Rename f1 td (final_path s (ID snap)))
             = (Inr ms, wfs w')
         \<and> wms w' = st1 \<and> wmt w' = wmt w
         \<and> wtrace w' = wtrace w @ [EvMkdirTemp td, EvBegin, EvCreateSnapshot key (ID snap),
                                     EvRename td (final_path s (ID snap)), EvCommit]"
proof -
  obtain res td' path' w1 where
    b: "createSnapshot_body s flt tmp k key parent opts w = (res, td', path', w1)"
    by (cases "createSnapshot_body s flt tmp k key parent opts w") auto
  from assms b have "res = Inr ms" and "w1 = w'"
    by (auto simp add: createSnapshot_def createSnapshot_defer_def Let_def split: sum.splits)
  with b createSnapshot_body_success show ?thesis by blast
qed


lemma diffMounts_result:
  "diffMounts s flt f snap = (Inr ms, f') \<Longrightarrow> ms = [diff_mount s (ID snap)]"
  by (auto simp add: diffMounts_def diff_mount_def Let_def split: option.splits)

lemma mounts_extract_block:
  "blockMode s \<Longrightarrow> Kind snap = KindActive \<Longrightarrow> isExtractSnapshot i \<Longrightarrow>
   mounts s flt f snap i = (Inr ms, f') \<Longrightarrow> ms = [diff_mount s (ID snap)]"
  using diffMounts_result by (simp add: mounts_def)

lemma createSnapshot_after_mounts:
  "createSnapshot_after s flt k key snap i f = (Inr ms, f') \<Longrightarrow>
     \<exists>fx. mounts s flt fx snap i = (Inr ms, f')"
  by (auto simp add: createSnapshot_after_def Let_def split: if_splits prod.splits option.splits)

lemma Prepare_extract_block:
  assumes b: "blockMode s"
      and p: "Prepare s flt tmp key parent opts w = (Inr ms, w')"
      and st: "Stat w' key = Inr i" and e: "isExtractSnapshot i"
  shows "ms = [diff_mount s (show_nat (Suc (seq (wms w))))]"
proof -
  from createSnapshot_success [OF p [unfolded Prepare_def]]
  obtain snap st1 i0 td f1 where
    c: "storage_CreateSnapshot (wms w) KindActive key parent (extract_opts key opts) = Inr (snap, st1)"
    and g: "storage_GetInfo st1 key = Inr (ID snap, i0)"
    and a: "createSnapshot_after s flt KindActive key snap i0 (Rename f1 td (final_path s (ID snap)))
             = (Inr ms, wfs w')"
    and m: "wms w' = st1"
    by blast
  from st g m have "i = i0" by (simp add: Stat_def)
  moreover from storage_CreateSnapshot_success [OF c]
  have "ID snap = show_nat (Suc (seq (wms w)))" and "Kind snap = KindActive" by auto
  moreover from createSnapshot_after_mounts [OF a]
  obtain fx where "mounts s flt fx snap i0 = (Inr ms, wfs w')" by blast
  ultimately show ?thesis using mounts_extract_block [OF b] e by metis
qed

lemma Mounts_extract_block:
  assumes b: "blockMode s"
      and p: "Mounts s flt key w = (Inr ms, w')"
      and g: "storage_GetInfo (wms w) key = Inr (sid, i)"
      and k: "InfoKind i = KindActive" and e: "isExtractSnapshot i"
  shows "ms = [diff_mount s sid]"
proof -
  from g obtain r where r: "recs (wms w) key = Some r" and sid: "sid = rec_id r"
    and i: "i = \<lparr>Name = key, Parent = rec_parent r, InfoKind = rec_kind r, Labels = rec_labels r\<rparr>"
    by (auto simp add: storage_GetInfo_def split: option.splits)
  from k i have rk: "rec_kind r = KindActive" by simp
  define snap where "snap = \<lparr>ID = rec_id r, Kind = rec_kind r, ParentIDs = rec_parents r\<rparr>"
  have gs: "storage_GetSnapshot (wms w) key = Inr snap"
    using r rk by (simp add: storage_GetSnapshot_def snap_def)
  obtain res f1 where m: "mounts s flt (wfs w) snap i = (res, f1)"
    by (cases "mounts s flt (wfs w) snap i") auto
  from p gs g m have "res = Inr ms" by (simp add: Mounts_def)
  with m mounts_extract_block [OF b _ e, of snap flt "wfs w" ms f1] rk
  show ?thesis by (simp add: snap_def sid)
qed

text \<open>
  Claim C5, as stated, fails in directory mode: an active snapshot with the extract label
  and one parent gets the normal stack, an \<open>erofs\<close> mount and an overlay.
\<close>

theorem extract_directory_mode_counterexample:
  "\<exists>w' i. Prepare cfg_dir {} ''X'' ''extract-2'' ''layer1'' [] world_layer1
     = (Inr [\<lparr>Source = ''/r/snapshots/1/layer.erofs'', Type = ''erofs'',
              Options = [''ro'', ''loop'']\<rparr>,
             \<lparr>Source = ''overlay'', Type = ''format/mkdir/overlay'',
              Options = [''workdir=/r/snapshots/2/work'', ''upperdir=/r/snapshots/2/fs'',
                         ''lowerdir={{ mount 0 }}'']\<rparr>], w')
     \<and> Stat w' ''extract-2'' = Inr i \<and> InfoKind i = KindActive \<and> isExtractSnapshot i"
  by (simp add: Prepare_def createSnapshot_def createSnapshot_defer_def createSnapshot_body_def
      createSnapshot_after_def createSnapshot_tx_def prepareDirectory_def ensureMarkerFile_def
      storage_CreateSnapshot_def storage_GetInfo_def upperDirectoryPermission_def
      generateFsMeta_def mounts_def templateMounts_def overlayStack_def activeLayerMounts_def
      lowerPath_def layerBlobPath_def upperPath_def workPath_def overlay_mount_def erofs_mount_def
      isExtractKey_def path_Base_def UnpackKeyPrefix_def isExtractSnapshot_def extractLabel_def
      apply_opts_def Stat_def Rename_def is_under_def erofsLayerMarker_def
      show_nat_0 show_nat_2
      join_def cfg_dir_def world_layer1_def Let_def)


text \<open>
  Claim C5, amended: in block mode, for every active snapshot that carries the extract
  label, the mount list that \<open>Prepare\<close> and \<open>Mounts\<close> return is the diff mount, one
  bind mount \<open>rw,rbind\<close> of the snapshot's \<open>fs\<close> directory, whatever the length of
  the parent chain. In directory mode the label has no influence: the plan is that of the
  template planner (a bind mount only for a snapshot without parents).
\<close>

theorem extract_diff_mount_block_mode:
  "(blockMode s \<longrightarrow>
      (\<forall>ms w' i. Prepare s flt tmp key parent opts w = (Inr ms, w')
                  \<and> Stat w' key = Inr i \<and> isExtractSnapshot i
                \<longrightarrow> ms = [diff_mount s (show_nat (Suc (seq (wms w))))])
      \<and> (\<forall>ms w' sid i. Mounts s flt key w = (Inr ms, w')
                  \<and> storage_GetInfo (wms w) key = Inr (sid, i)
                  \<and> InfoKind i = KindActive \<and> isExtractSnapshot i
                \<longrightarrow> ms = [diff_mount s sid]))
   \<and> (\<not> blockMode s \<longrightarrow> mounts s flt f snap j = (templateMounts s flt f snap, f))"
  using Prepare_extract_block [of s flt tmp key parent opts w]
        Mounts_extract_block [of s flt key w]
  by (auto simp add: mounts_def)

theorem extract_diff_mount_block_mode_witness:
  "blockMode cfg_block
   \<and> (\<exists>ms w' i. Prepare cfg_block {} ''X'' ''extract-2'' ''layer1'' [] world_layer1 = (Inr ms, w')
         \<and> Stat w' ''extract-2'' = Inr i \<and> isExtractSnapshot i
         \<and> ms = [diff_mount cfg_block (show_nat (Suc (seq (wms world_layer1))))])
   \<and> (\<exists>ms w' sid i. Mounts cfg_block {} ''extract-2'' world_extract = (Inr ms, w')
         \<and> storage_GetInfo (wms world_extract) ''extract-2'' = Inr (sid, i)
         \<and> InfoKind i = KindActive \<and> isExtractSnapshot i
         \<and> ms = [diff_mount cfg_block sid])
   \<and> \<not> blockMode cfg_dir
   \<and> mounts cfg_dir {} (wfs world_extract) zero_snapshot zero_info
       = (templateMounts cfg_dir {} (wfs world_extract) zero_snapshot, wfs world_extract)"
proof -
  have a: "blockMode cfg_block \<and> \<not> blockMode cfg_dir"
    by (simp add: cfg_block_def cfg_dir_def)
  have b: "\<exists>ms w' i. Prepare cfg_block {} ''X'' ''extract-2'' ''layer1'' [] world_layer1
                        = (Inr ms, w')
         \<and> Stat w' ''extract-2'' = Inr i \<and> isExtractSnapshot i"
    by (simp add: eval_defs cfg_block_def cfg_dir_def world_layer1_def)
  have c: "\<exists>ms w' sid i. Mounts cfg_block {} ''extract-2'' world_extract = (Inr ms, w')
         \<and> storage_GetInfo (wms world_extract) ''extract-2'' = Inr (sid, i)
         \<and> InfoKind i = KindActive \<and> isExtractSnapshot i"
    by (simp add: eval_defs cfg_block_def cfg_dir_def world_extract_def)
  note t1 = extract_diff_mount_block_mode
      [of cfg_block "{}" "''X''" "''extract-2''" "''layer1''" "[]" world_layer1
          "wfs world_extract" zero_snapshot zero_info]
  note t2 = extract_diff_mount_block_mode
      [of cfg_block "{}" "''X''" "''extract-2''" "''layer1''" "[]" world_extract
          "wfs world_extract" zero_snapshot zero_info]
  note t3 = extract_diff_mount_block_mode
      [of cfg_dir "{}" "''X''" "''extract-2''" "''layer1''" "[]" world_extract
          "wfs world_extract" zero_snapshot zero_info]
  from b obtain ms w' i where
    b1: "Prepare cfg_block {} ''X'' ''extract-2'' ''layer1'' [] world_layer1 = (Inr ms, w')"
    and b2: "Stat w' ''extract-2'' = Inr i" and b3: "isExtractSnapshot i" by blast
  from t1 a b1 b2 b3 have b4: "ms = [diff_mount cfg_block (show_nat (Suc (seq (wms world_layer1))))]"
    by blast
  from c obtain ms2 w2 sid i2 where
    c1: "Mounts cfg_block {} ''extract-2'' world_extract = (Inr ms2, w2)"
    and c2: "storage_GetInfo (wms world_extract) ''extract-2'' = Inr (sid, i2)"
    and c3: "InfoKind i2 = KindActive" and c4: "isExtractSnapshot i2" by blast
  from t2 a c1 c2 c3 c4 have c5: "ms2 = [diff_mount cfg_block sid]"
    by blast
  from t3 a have d: "mounts cfg_dir {} (wfs world_extract) zero_snapshot zero_info
       = (templateMounts cfg_dir {} (wfs world_extract) zero_snapshot, wfs world_extract)"
    by blast
  show ?thesis
    using a b1 b2 b3 b4 c1 c2 c3 c4 c5 d by blast
qed

text \<open>The writable layer.\<close>

lemma MkdirAll_keeps: "MkdirAll flt f p = Some f1 \<Longrightarrow> f q \<noteq> None \<Longrightarrow> f1 q = f q"
  by (auto simp add: MkdirAll_def Let_def split: if_splits)

lemma ensureMarkerFile_keeps: "ensureMarkerFile flt f p = Some f1 \<Longrightarrow> f q \<noteq> None \<Longrightarrow> f1 q = f q"
  by (auto simp add: ensureMarkerFile_def split: if_splits)

lemma diffMounts_keeps: "diffMounts s flt f snap = (r, f1) \<Longrightarrow> f q \<noteq> None \<Longrightarrow> f1 q = f q"
proof -
  assume d: "diffMounts s flt f snap = (r, f1)" and q: "f q \<noteq> None"
  show ?thesis
  proof (cases "MkdirAll flt f (upperPath s (ID snap))")
    case None
    with d show ?thesis by (simp add: diffMounts_def Let_def)
  next
    case (Some f2)
    note m = this
    from MkdirAll_keeps [OF m q] have k2: "f2 q = f q" .
    show ?thesis
    proof (cases "ensureMarkerFile flt f2 (join (snapshotDirOf s (ID snap)) erofsLayerMarker)")
      case None
      with d m k2 show ?thesis by (auto simp add: diffMounts_def Let_def)
    next
      case (Some f3)
      with ensureMarkerFile_keeps [OF Some, of q] k2 q d m show ?thesis
        by (auto simp add: diffMounts_def Let_def)
    qed
  qed
qed

lemma mounts_keeps: "mounts s flt f snap i = (r, f1) \<Longrightarrow> f q \<noteq> None \<Longrightarrow> f1 q = f q"
proof -
  assume m: "mounts s flt f snap i = (r, f1)" and q: "f q \<noteq> None"
  show ?thesis
  proof (cases "blockMode s \<and> Kind snap = KindActive \<and> isExtractSnapshot i")
    case True
    with m have "diffMounts s flt f snap = (r, f1)" by (simp add: mounts_def)
    from diffMounts_keeps [OF this q] show ?thesis .
  next
    case False
    with m have "f1 = f" by (auto simp add: mounts_def split: if_splits)
    then show ?thesis by simp
  qed
qed

lemma createWritableLayer_cases:
  "createWritableLayer s flt f sid = (r, f1) \<Longrightarrow>
     (r = None \<and> FCreate \<notin> flt \<and> FTruncate \<notin> flt \<and> FMkfsExt4 \<notin> flt
        \<and> f1 (writablePath s sid)
            = Some (File (defaultWritable s) (mkfs_ext4_args (writablePath s sid))))
   \<or> (r = Some ErrCreateWritable \<and> FCreate \<in> flt \<and> f1 = f)
   \<or> (r = Some ErrAllocateWritable \<and> FTruncate \<in> flt \<and> f1 (writablePath s sid) = None)
   \<or> (r = Some ErrFormatExt4 \<and> FMkfsExt4 \<in> flt \<and> f1 (writablePath s sid) = None)"
  by (auto simp add: createWritableLayer_def Let_def split: if_splits)

lemma createSnapshot_after_writable:
  assumes b: "blockMode s" and e: "\<not> isExtractKey key"
      and a: "createSnapshot_after s flt KindActive key snap i f = (Inr ms, f')"
  shows "FCreate \<notin> flt \<and> FTruncate \<notin> flt \<and> FMkfsExt4 \<notin> flt
       \<and> f' (writablePath s (ID snap))
            = Some (File (defaultWritable s) (mkfs_ext4_args (writablePath s (ID snap))))"
proof -
  define f2 where "f2 = generateFsMeta s flt f (ParentIDs snap)"
  obtain r f3 where c: "createWritableLayer s flt f2 (ID snap) = (r, f3)"
    by (cases "createWritableLayer s flt f2 (ID snap)") auto
  from a b e c have rn: "r = None" and m: "mounts s flt f3 snap i = (Inr ms, f')"
    by (cases r; simp add: createSnapshot_after_def f2_def)+
  from createWritableLayer_cases [OF c] rn
  have nf: "FCreate \<notin> flt \<and> FTruncate \<notin> flt \<and> FMkfsExt4 \<notin> flt"
    and w: "f3 (writablePath s (ID snap))
            = Some (File (defaultWritable s) (mkfs_ext4_args (writablePath s (ID snap))))"
    by auto
  from mounts_keeps [OF m, of "writablePath s (ID snap)"] w nf show ?thesis by simp
qed

text \<open>
  Claim C7, as stated, fails for extract keys: in block mode \<open>Prepare\<close> of an extract
  key succeeds, the snapshot is active, and no \<open>rwlayer.img\<close> exists.
\<close>

theorem Prepare_extract_no_writable_layer_counterexample:
  "blockMode cfg_block
   \<and> (\<exists>ms w'. Prepare cfg_block {} ''X'' ''extract-1'' [] [] world_empty = (Inr ms, w')
         \<and> wfs w' (writablePath cfg_block ''1'') = None
         \<and> (\<exists>i. Stat w' ''extract-1'' = Inr i \<and> InfoKind i = KindActive))"
  by (simp add: eval_defs cfg_block_def cfg_dir_def world_empty_def)

text \<open>
  Claim C7, amended: for every \<open>Prepare\<close> in block mode whose key is not an extract
  key, a successful call has created \<open>rwlayer.img\<close> in the snapshot's directory as a
  file of the configured size, formatted by \<open>mkfs.ext4\<close> with the options
  \<open>nodiscard,lazy_itable_init=1,lazy_journal_init=1\<close>, and none of the three steps
  failed; and when \<open>createWritableLayer\<close> fails, either the file could not be created
  and nothing was changed, or the file is removed.
\<close>

theorem Prepare_writable_layer:
  "(blockMode s \<and> \<not> isExtractKey key \<longrightarrow>
      (\<forall>ms w'. Prepare s flt tmp key parent opts w = (Inr ms, w') \<longrightarrow>
          FCreate \<notin> flt \<and> FTruncate \<notin> flt \<and> FMkfsExt4 \<notin> flt
          \<and> wfs w' (writablePath s (show_nat (Suc (seq (wms w)))))
              = Some (File (defaultWritable s)
                        (mkfs_ext4_args (writablePath s (show_nat (Suc (seq (wms w)))))))))
   \<and> (\<forall>e f1. createWritableLayer s flt f sid = (Some e, f1) \<longrightarrow>
          (e = ErrCreateWritable \<and> f1 = f) \<or> f1 (writablePath s sid) = None)"
proof (intro conjI impI allI)
  fix ms w'
  assume h: "blockMode s \<and> \<not> isExtractKey key"
    and p: "Prepare s flt tmp key parent opts w = (Inr ms, w')"
  from createSnapshot_success [OF p [unfolded Prepare_def]]
  obtain snap st1 i0 td f1 where
    c: "storage_CreateSnapshot (wms w) KindActive key parent (extract_opts key opts) = Inr (snap, st1)"
    and a: "createSnapshot_after s flt KindActive key snap i0 (Rename f1 td (final_path s (ID snap)))
             = (Inr ms, wfs w')"
    by blast
  from storage_CreateSnapshot_success [OF c]
  have sid: "ID snap = show_nat (Suc (seq (wms w)))" by simp
  from createSnapshot_after_writable [OF _ _ a] h sid
  show "FCreate \<notin> flt" "FTruncate \<notin> flt" "FMkfsExt4 \<notin> flt"
    "wfs w' (writablePath s (show_nat (Suc (seq (wms w)))))
              = Some (File (defaultWritable s)
                        (mkfs_ext4_args (writablePath s (show_nat (Suc (seq (wms w)))))))"
    by auto
next
  fix e f1
  assume "createWritableLayer s flt f sid = (Some e, f1)"
  from createWritableLayer_cases [OF this]
  show "(e = ErrCreateWritable \<and> f1 = f) \<or> f1 (writablePath s sid) = None" by auto
qed

theorem Prepare_writable_layer_witness:
  "blockMode cfg_block \<and> \<not> isExtractKey ''k''
   \<and> (\<exists>ms w'. Prepare cfg_block {} ''X'' ''k'' [] [] world_empty = (Inr ms, w')
         \<and> wfs w' (writablePath cfg_block (show_nat (Suc (seq (wms world_empty)))))
              = Some (File (defaultWritable cfg_block)
                        (mkfs_ext4_args
                           (writablePath cfg_block (show_nat (Suc (seq (wms world_empty))))))))
   \<and> (\<exists>e f1. createWritableLayer cfg_block {FMkfsExt4} (wfs world_empty) ''1'' = (Some e, f1)
         \<and> f1 (writablePath cfg_block ''1'') = None)"
proof -
  have a: "blockMode cfg_block \<and> \<not> isExtractKey ''k''"
    by (simp add: cfg_block_def cfg_dir_def isExtractKey_def path_Base_def UnpackKeyPrefix_def)
  have b: "\<exists>ms w'. Prepare cfg_block {} ''X'' ''k'' [] [] world_empty = (Inr ms, w')"
    by (simp add: eval_defs cfg_block_def cfg_dir_def world_empty_def)
  have c: "\<exists>e f1. createWritableLayer cfg_block {FMkfsExt4} (wfs world_empty) ''1'' = (Some e, f1)
             \<and> e \<noteq> ErrCreateWritable"
    by (simp add: createWritableLayer_def Let_def)
  show ?thesis
    using a b c
      Prepare_writable_layer [of cfg_block "''k''" "{}" "''X''" "[]" "[]" world_empty]
      Prepare_writable_layer [of cfg_block _ "{FMkfsExt4}" _ _ _ _ "wfs world_empty" "''1''"]
    by blast
qed


text \<open>The order of rename and commit.\<close>

lemma final_path_nonempty: "final_path s sid \<noteq> []"
  by (simp add: final_path_def join_def)

lemma createSnapshot_defer_effect:
  "\<exists>rm. wtrace (snd (createSnapshot_defer flt (res, td, path, w1))) = wtrace w1 @ rm
        \<and> (\<forall>a b. EvRename a b \<notin> set rm)
        \<and> wms (snd (createSnapshot_defer flt (res, td, path, w1))) = wms w1
        \<and> ((\<exists>e. res = Inl e) \<and> path \<noteq> [] \<and> FRemoveAll \<notin> flt
             \<longrightarrow> wfs (snd (createSnapshot_defer flt (res, td, path, w1))) path = None)"
  by (cases res) (auto simp add: createSnapshot_defer_def Let_def RemoveAll_def is_under_def)

lemma createSnapshot_body_trace:
  assumes b: "createSnapshot_body s flt tmp k key parent opts w = (res, td', path', w1)"
  shows "(\<exists>evs0. wtrace w1 = wtrace w @ evs0 \<and> (\<forall>a b. EvRename a b \<notin> set evs0))
       \<or> (\<exists>td sid e. wtrace w1 = wtrace w @ [EvMkdirTemp td, EvBegin, EvCreateSnapshot key sid,
                                              EvRename td (final_path s sid), EvRollback]
             \<and> res = Inl e \<and> path' = final_path s sid \<and> wms w1 = wms w)
       \<or> (\<exists>td sid. wtrace w1 = wtrace w @ [EvMkdirTemp td, EvBegin, EvCreateSnapshot key sid,
                                            EvRename td (final_path s sid), EvCommit]
             \<and> path' = final_path s sid)"
proof -
  obtain td perr f1 where
    p: "prepareDirectory s flt (wfs w) (join (root s) ''snapshots'') k tmp = (td, perr, f1)"
    by (cases "prepareDirectory s flt (wfs w) (join (root s) ''snapshots'') k tmp") auto
  show ?thesis
  proof (cases perr)
    case (Some e)
    with b p have "wtrace w1 = wtrace w @ (if td = [] then [] else [EvMkdirTemp td])"
      by (auto simp add: createSnapshot_body_def)
    then show ?thesis by auto
  next
    case None
    define v where "v = createSnapshot_tx s flt k key parent (extract_opts key opts) td f1 (wms w)"
    obtain r4 f4 where
      a: "createSnapshot_after s flt k key (tx_snap v) (tx_info v) (tx_fs v) = (r4, f4)"
      by (cases "createSnapshot_after s flt k key (tx_snap v) (tx_info v) (tx_fs v)") auto
    have unf: "createSnapshot_body s flt tmp k key parent opts w =
       (if tx_err v \<noteq> None \<or> FTxCommit \<in> flt then
               (Inl (case tx_err v of Some e \<Rightarrow> e | None \<Rightarrow> ErrTxCommit), tx_td v, tx_path v,
                w\<lparr>wfs := tx_fs v,
                  wtrace := (wtrace w @ [EvMkdirTemp td, EvBegin] @ tx_events v) @ [EvRollback]\<rparr>)
             else (r4, tx_td v, tx_path v,
                     w\<lparr>wfs := f4, wms := tx_store v,
                       wtrace := (wtrace w @ [EvMkdirTemp td, EvBegin] @ tx_events v) @ [EvCommit]\<rparr>))"
      using p None a
      by (simp add: createSnapshot_body_def v_def extract_opts_def Let_def)
    have "(\<exists>sid. tx_err v = None
             \<and> tx_events v = [EvCreateSnapshot key sid, EvRename td (final_path s sid)]
             \<and> tx_path v = final_path s sid)
          \<or> (tx_err v \<noteq> None \<and> (\<forall>a b. EvRename a b \<notin> set (tx_events v)))"
      using createSnapshot_tx_cases [of "wms w" k key parent "extract_opts key opts" s flt td f1]
    proof (elim disjE exE conjE)
      fix snap st1 i
      assume "createSnapshot_tx s flt k key parent (extract_opts key opts) td f1 (wms w)
           = \<lparr>tx_err = None, tx_snap = snap, tx_info = i, tx_td = [],
              tx_path = join (join (root s) ''snapshots'') (ID snap),
              tx_fs = Rename f1 td (join (join (root s) ''snapshots'') (ID snap)),
              tx_store = st1,
              tx_events = [EvCreateSnapshot key (ID snap),
                           EvRename td (join (join (root s) ''snapshots'') (ID snap))]\<rparr>"
      then have "tx_err v = None
             \<and> tx_events v = [EvCreateSnapshot key (ID snap), EvRename td (final_path s (ID snap))]
             \<and> tx_path v = final_path s (ID snap)"
        by (simp add: v_def final_path_def)
      then show ?thesis by blast
    next
      assume "tx_err (createSnapshot_tx s flt k key parent (extract_opts key opts) td f1 (wms w))
                \<noteq> None"
        and "\<forall>a b. EvRename a b
               \<notin> set (tx_events (createSnapshot_tx s flt k key parent (extract_opts key opts)
                                     td f1 (wms w)))"
      then show ?thesis by (simp add: v_def)
    qed
    then consider
      (ok) sid where "tx_err v = None"
        "tx_events v = [EvCreateSnapshot key sid, EvRename td (final_path s sid)]"
        "tx_path v = final_path s sid"
      | (fail) "tx_err v \<noteq> None" "\<forall>a b. EvRename a b \<notin> set (tx_events v)"
      by blast
    then show ?thesis
    proof cases
      case fail
      with b have "wtrace w1 = wtrace w @ ([EvMkdirTemp td, EvBegin] @ tx_events v @ [EvRollback])"
        unfolding unf by auto
      with fail(2) show ?thesis by auto
    next
      case ok
      show ?thesis
      proof (cases "FTxCommit \<in> flt")
        case True
        with b ok have "wtrace w1 = wtrace w @ [EvMkdirTemp td, EvBegin,
               EvCreateSnapshot key sid, EvRename td (final_path s sid), EvRollback]"
          and "res = Inl ErrTxCommit" and "path' = final_path s sid" and "wms w1 = wms w"
          unfolding unf by auto
        then show ?thesis by blast
      next
        case False
        with b ok have "wtrace w1 = wtrace w @ [EvMkdirTemp td, EvBegin,
               EvCreateSnapshot key sid, EvRename td (final_path s sid), EvCommit]"
          and "path' = final_path s sid"
          unfolding unf by auto
        then show ?thesis by blast
      qed
    qed
  qed
qed

text \<open>
  Claim C2, as stated, fails: the rename is a step of the transaction callback, so it
  precedes the commit. In a successful \<open>Prepare\<close> the trace has the rename before the
  commit; and when the commit fails (and the removal too), the directory is at its final
  path although no record was ever committed.
\<close>

theorem rename_before_commit_counterexample:
  "(\<exists>ms. fst (Prepare cfg_dir {} ''X'' ''k'' [] [] world_empty) = Inr ms)
   \<and> wtrace (snd (Prepare cfg_dir {} ''X'' ''k'' [] [] world_empty))
       = [EvMkdirTemp ''/r/snapshots/new-X'', EvBegin, EvCreateSnapshot ''k'' ''1'',
          EvRename ''/r/snapshots/new-X'' ''/r/snapshots/1'', EvCommit]
   \<and> wtrace (snd (Prepare cfg_dir {FTxCommit, FRemoveAll} ''X'' ''k'' [] [] world_empty))
       = [EvMkdirTemp ''/r/snapshots/new-X'', EvBegin, EvCreateSnapshot ''k'' ''1'',
          EvRename ''/r/snapshots/new-X'' ''/r/snapshots/1'', EvRollback]
   \<and> wfs (snd (Prepare cfg_dir {FTxCommit, FRemoveAll} ''X'' ''k'' [] [] world_empty))
         ''/r/snapshots/1'' = Some Dir
   \<and> recs (wms (snd (Prepare cfg_dir {FTxCommit, FRemoveAll} ''X'' ''k'' [] [] world_empty)))
         ''k'' = None"
  by (simp add: eval_defs cfg_dir_def world_empty_def)

text \<open>
  Claim C2, amended: during \<open>Prepare\<close> and \<open>View\<close> the staging directory is renamed
  to its final path \<open><root>/snapshots/<id>\<close> inside the write transaction, directly
  after the record was created in that transaction and directly before the transaction
  commits or is rolled back; when it is rolled back, the deferred cleanup removes the
  directory from the final path again (unless the removal fails) and the store is as
  before.
\<close>

theorem rename_inside_transaction:
  "\<exists>evs. wtrace (snd (createSnapshot s flt tmp k key parent opts w)) = wtrace w @ evs
     \<and> (\<forall>td p. EvRename td p \<in> set evs \<longrightarrow>
          (\<exists>sid rest. p = final_path s sid
             \<and> evs = [EvMkdirTemp td, EvBegin, EvCreateSnapshot key sid, EvRename td p] @ rest
             \<and> rest \<noteq> [] \<and> (hd rest = EvCommit \<or> hd rest = EvRollback)
             \<and> (hd rest = EvRollback \<and> FRemoveAll \<notin> flt \<longrightarrow>
                  wfs (snd (createSnapshot s flt tmp k key parent opts w)) p = None
                  \<and> wms (snd (createSnapshot s flt tmp k key parent opts w)) = wms w)))"
proof -
  obtain res td' path' w1 where
    b: "createSnapshot_body s flt tmp k key parent opts w = (res, td', path', w1)"
    by (cases "createSnapshot_body s flt tmp k key parent opts w") auto
  define R where "R = createSnapshot s flt tmp k key parent opts w"
  have R: "R = createSnapshot_defer flt (res, td', path', w1)"
    by (simp add: R_def createSnapshot_def b)
  from createSnapshot_defer_effect [of flt res td' path' w1] obtain rm where
    tr: "wtrace (snd R) = wtrace w1 @ rm" and nr: "\<forall>a b. EvRename a b \<notin> set rm"
    and ms: "wms (snd R) = wms w1"
    and rmv: "(\<exists>e. res = Inl e) \<and> path' \<noteq> [] \<and> FRemoveAll \<notin> flt \<longrightarrow> wfs (snd R) path' = None"
    unfolding R by blast
  from createSnapshot_body_trace [OF b]
  consider
    (none) evs0 where "wtrace w1 = wtrace w @ evs0" "\<forall>a b. EvRename a b \<notin> set evs0"
    | (rb) td sid e where
        "wtrace w1 = wtrace w @ [EvMkdirTemp td, EvBegin, EvCreateSnapshot key sid,
                                  EvRename td (final_path s sid), EvRollback]"
        "res = Inl e" "path' = final_path s sid" "wms w1 = wms w"
    | (cm) td sid where
        "wtrace w1 = wtrace w @ [EvMkdirTemp td, EvBegin, EvCreateSnapshot key sid,
                                  EvRename td (final_path s sid), EvCommit]"
        "path' = final_path s sid"
    by blast
  then have "\<exists>evs. wtrace (snd R) = wtrace w @ evs
     \<and> (\<forall>td p. EvRename td p \<in> set evs \<longrightarrow>
          (\<exists>sid rest. p = final_path s sid
             \<and> evs = [EvMkdirTemp td, EvBegin, EvCreateSnapshot key sid, EvRename td p] @ rest
             \<and> rest \<noteq> [] \<and> (hd rest = EvCommit \<or> hd rest = EvRollback)
             \<and> (hd rest = EvRollback \<and> FRemoveAll \<notin> flt \<longrightarrow>
                  wfs (snd R) p = None \<and> wms (snd R) = wms w)))"
  proof cases
    case none
    have "wtrace (snd R) = wtrace w @ (evs0 @ rm)" using tr none(1) by simp
    moreover have "\<forall>a b. EvRename a b \<notin> set (evs0 @ rm)" using none(2) nr by simp
    ultimately show ?thesis by blast
  next
    case rb
    have 1: "wtrace (snd R) = wtrace w @ ([EvMkdirTemp td, EvBegin, EvCreateSnapshot key sid,
                                  EvRename td (final_path s sid)] @ (EvRollback # rm))"
      using tr rb(1) by simp
    have 2: "FRemoveAll \<notin> flt \<longrightarrow> wfs (snd R) (final_path s sid) = None"
      using rmv rb(2,3) final_path_nonempty by auto
    have 3: "wms (snd R) = wms w" using ms rb(4) by simp
    show ?thesis
      apply (rule exI [of _ "[EvMkdirTemp td, EvBegin, EvCreateSnapshot key sid,
                                  EvRename td (final_path s sid)] @ (EvRollback # rm)"])
      using 1 2 3 nr by auto
  next
    case cm
    have 1: "wtrace (snd R) = wtrace w @ ([EvMkdirTemp td, EvBegin, EvCreateSnapshot key sid,
                                  EvRename td (final_path s sid)] @ (EvCommit # rm))"
      using tr cm(1) by simp
    show ?thesis
      apply (rule exI [of _ "[EvMkdirTemp td, EvBegin, EvCreateSnapshot key sid,
                                  EvRename td (final_path s sid)] @ (EvCommit # rm)"])
      using 1 nr by auto
  qed
  then show ?thesis unfolding R_def .
qed

theorem rename_inside_transaction_witness:
  "\<exists>evs. wtrace (snd (createSnapshot cfg_dir {FTxCommit} ''X'' KindActive ''k'' [] []
                        world_empty)) = wtrace world_empty @ evs
     \<and> EvRename ''/r/snapshots/new-X'' ''/r/snapshots/1'' \<in> set evs
     \<and> (\<exists>sid rest. ''/r/snapshots/1'' = final_path cfg_dir sid
           \<and> evs = [EvMkdirTemp ''/r/snapshots/new-X'', EvBegin, EvCreateSnapshot ''k'' sid,
                     EvRename ''/r/snapshots/new-X'' ''/r/snapshots/1''] @ rest
           \<and> rest \<noteq> [] \<and> hd rest = EvRollback \<and> FRemoveAll \<notin> {FTxCommit}
           \<and> wfs (snd (createSnapshot cfg_dir {FTxCommit} ''X'' KindActive ''k'' [] []
                          world_empty)) ''/r/snapshots/1'' = None
           \<and> wms (snd (createSnapshot cfg_dir {FTxCommit} ''X'' KindActive ''k'' [] []
                          world_empty)) = wms world_empty)"
proof -
  define R where "R = createSnapshot cfg_dir {FTxCommit} ''X'' KindActive ''k'' [] [] world_empty"
  have tr: "wtrace (snd R)
       = [EvMkdirTemp ''/r/snapshots/new-X'', EvBegin, EvCreateSnapshot ''k'' ''1'',
          EvRename ''/r/snapshots/new-X'' ''/r/snapshots/1'', EvRollback,
          EvRemoveAll ''/r/snapshots/1'']"
    and w0: "wtrace world_empty = []"
    unfolding R_def by (simp_all add: eval_defs cfg_dir_def world_empty_def)
  from rename_inside_transaction [of cfg_dir "{FTxCommit}" "''X''" KindActive "''k''" "[]" "[]"
      world_empty]
  obtain evs where
    e: "wtrace (snd R) = wtrace world_empty @ evs"
    and h: "\<forall>td p. EvRename td p \<in> set evs \<longrightarrow>
          (\<exists>sid rest. p = final_path cfg_dir sid
             \<and> evs = [EvMkdirTemp td, EvBegin, EvCreateSnapshot ''k'' sid, EvRename td p] @ rest
             \<and> rest \<noteq> [] \<and> (hd rest = EvCommit \<or> hd rest = EvRollback)
             \<and> (hd rest = EvRollback \<and> FRemoveAll \<notin> {FTxCommit} \<longrightarrow>
                  wfs (snd R) p = None \<and> wms (snd R) = wms world_empty))"
    unfolding R_def by blast
  from e tr w0 have evs: "evs = [EvMkdirTemp ''/r/snapshots/new-X'', EvBegin,
          EvCreateSnapshot ''k'' ''1'', EvRename ''/r/snapshots/new-X'' ''/r/snapshots/1'',
          EvRollback, EvRemoveAll ''/r/snapshots/1'']"
    by simp
  then have m: "EvRename ''/r/snapshots/new-X'' ''/r/snapshots/1'' \<in> set evs" by simp
  with h obtain sid rest where
    p: "''/r/snapshots/1'' = final_path cfg_dir sid"
    and s: "evs = [EvMkdirTemp ''/r/snapshots/new-X'', EvBegin, EvCreateSnapshot ''k'' sid,
                   EvRename ''/r/snapshots/new-X'' ''/r/snapshots/1''] @ rest"
    and ne: "rest \<noteq> []"
    and c: "hd rest = EvRollback \<and> FRemoveAll \<notin> {FTxCommit} \<longrightarrow>
              wfs (snd R) ''/r/snapshots/1'' = None \<and> wms (snd R) = wms world_empty"
    by blast
  from s [unfolded evs] have hd: "hd rest = EvRollback" by auto
  have nf: "FRemoveAll \<notin> {FTxCommit}" by simp
  from c hd nf have "wfs (snd R) ''/r/snapshots/1'' = None" and "wms (snd R) = wms world_empty"
    by auto
  with e m p s ne hd nf show ?thesis unfolding R_def by blast
qed


text \<open>
  A failure before the commit: whenever the transaction of \<open>Prepare\<close> or \<open>View\<close>
  has not committed, the call returns an error, the store is as it was before, and, when
  the removals work, no path exists afterwards that did not exist before.
\<close>

lemma HasPrefix_append: "HasPrefix (a @ b) a"
  by (induction a) simp_all

lemma is_under_join: "is_under d (join d x)"
  by (simp add: is_under_def join_def HasPrefix_append [of "d @ ''/''" x, simplified])

lemma is_under_refl: "is_under d d"
  by (simp add: is_under_def)

lemma prepareDirectory_adds_below_td:
  assumes pd0: "prepareDirectory s flt f dir k tmp = (td, perr, f1)"
  shows "(td = [] \<longrightarrow> f1 = f) \<and> (\<forall>p. \<not> is_under td p \<longrightarrow> f1 p = f p)"
proof -
  define t where "t = join dir (''new-'' @ tmp)"
  have ne: "t \<noteq> []" by (simp add: t_def join_def)
  have pd: "prepareDirectory s flt f dir k tmp =
     (if FMkdirTemp \<in> flt \<or> f t \<noteq> None then ([], Some ErrTempDir, f)
         else
           let f1 = f(t \<mapsto> Dir)
           in if FMkdirFs \<in> flt then (t, Some (ErrMkdir (join t ''fs'')), f1)
              else
                let f2 = f1(join t ''fs'' \<mapsto> Dir)
                in if k = KindActive then
                     (if \<not> blockMode s \<and> FMkdirWork \<in> flt
                        then (t, Some (ErrMkdir (join t ''work'')), f2)
                      else
                        let f3 = (if \<not> blockMode s then f2(join t ''work'' \<mapsto> Dir) else f2)
                        in case ensureMarkerFile flt f3 (join t erofsLayerMarker) of
                             None \<Rightarrow> (t, Some ErrMarker, f3)
                           | Some f4 \<Rightarrow> (t, None, f4))
                   else (t, None, f2))"
    unfolding prepareDirectory_def t_def Let_def ..
  have 1: "td = [] \<longrightarrow> f1 = f"
    using pd0 ne unfolding pd by (auto simp add: Let_def split: if_splits option.splits)
  have 2: "\<forall>p. \<not> is_under td p \<longrightarrow> f1 p = f p"
  proof (intro allI impI)
    fix p assume n: "\<not> is_under td p"
    show "f1 p = f p"
    proof (cases "td = []")
      case True
      with 1 show ?thesis by simp
    next
      case False
      with pd0 have td: "td = t"
        unfolding pd by (auto simp add: Let_def split: if_splits option.splits)
      from n td have u: "p \<noteq> t" "p \<noteq> join t ''fs''" "p \<noteq> join t ''work''"
        "p \<noteq> join t erofsLayerMarker"
        using is_under_refl is_under_join by blast+
      from pd0 u show ?thesis
        unfolding pd
        by (auto simp add: Let_def ensureMarkerFile_def split: if_splits option.splits)
    qed
  qed
  from 1 2 show ?thesis by blast
qed


lemma createSnapshot_defer_fs:
  "FRemoveAll \<notin> flt \<Longrightarrow>
   wfs (snd (createSnapshot_defer flt (Inl e, td, path, w1))) p
     = (if (td \<noteq> [] \<and> is_under td p) \<or> (path \<noteq> [] \<and> is_under path p) then None
        else wfs w1 p)"
  by (simp add: createSnapshot_defer_def Let_def RemoveAll_def)

lemma createSnapshot_body_uncommitted:
  assumes b: "createSnapshot_body s flt tmp k key parent opts w = (res, td', path', w1)"
  shows "(\<exists>evs0. wtrace w1 = wtrace w @ evs0 \<and> EvCommit \<in> set evs0)
       \<or> (\<exists>e. res = Inl e \<and> wms w1 = wms w
             \<and> (\<forall>p. wfs w p = None \<longrightarrow>
                    (td' \<noteq> [] \<and> is_under td' p) \<or> (path' \<noteq> [] \<and> is_under path' p)
                    \<or> wfs w1 p = None))"
proof -
  obtain td perr f1 where
    p: "prepareDirectory s flt (wfs w) (join (root s) ''snapshots'') k tmp = (td, perr, f1)"
    by (cases "prepareDirectory s flt (wfs w) (join (root s) ''snapshots'') k tmp") auto
  from prepareDirectory_adds_below_td [OF p]
  have A: "td = [] \<longrightarrow> f1 = wfs w" and B: "\<forall>p. \<not> is_under td p \<longrightarrow> f1 p = wfs w p"
    by auto
  have C: "\<forall>p. wfs w p = None \<longrightarrow> (td \<noteq> [] \<and> is_under td p) \<or> f1 p = None"
  proof (intro allI impI)
    fix q assume q: "wfs w q = None"
    show "(td \<noteq> [] \<and> is_under td q) \<or> f1 q = None"
    proof (cases "td = []")
      case True
      with A q show ?thesis by simp
    next
      case False
      show ?thesis
      proof (cases "is_under td q")
        case True
        with False show ?thesis by simp
      next
        case False
        with B [rule_format, of q] q show ?thesis by simp
      qed
    qed
  qed
  show ?thesis
  proof (cases perr)
    case (Some e)
    with b p have r: "res = Inl e" and t: "td' = td" and m: "wms w1 = wms w"
      and f: "wfs w1 = f1"
      by (auto simp add: createSnapshot_body_def)
    have "\<forall>p. wfs w p = None \<longrightarrow>
                    (td' \<noteq> [] \<and> is_under td' p) \<or> (path' \<noteq> [] \<and> is_under path' p)
                    \<or> wfs w1 p = None"
    proof (intro allI impI)
      fix q assume "wfs w q = None"
      from C [rule_format, OF this] have "(td \<noteq> [] \<and> is_under td q) \<or> f1 q = None" .
      then show "(td' \<noteq> [] \<and> is_under td' q) \<or> (path' \<noteq> [] \<and> is_under path' q)
                    \<or> wfs w1 q = None"
        unfolding t f by (elim disjE) simp_all
    qed
    with r m show ?thesis by (intro disjI2 exI [of _ e]) simp
  next
    case None
    define v where "v = createSnapshot_tx s flt k key parent (extract_opts key opts) td f1 (wms w)"
    obtain r4 f4 where
      a: "createSnapshot_after s flt k key (tx_snap v) (tx_info v) (tx_fs v) = (r4, f4)"
      by (cases "createSnapshot_after s flt k key (tx_snap v) (tx_info v) (tx_fs v)") auto
    have unf: "createSnapshot_body s flt tmp k key parent opts w =
       (if tx_err v \<noteq> None \<or> FTxCommit \<in> flt then
               (Inl (case tx_err v of Some e \<Rightarrow> e | None \<Rightarrow> ErrTxCommit), tx_td v, tx_path v,
                w\<lparr>wfs := tx_fs v,
                  wtrace := (wtrace w @ [EvMkdirTemp td, EvBegin] @ tx_events v) @ [EvRollback]\<rparr>)
             else (r4, tx_td v, tx_path v,
                     w\<lparr>wfs := f4, wms := tx_store v,
                       wtrace := (wtrace w @ [EvMkdirTemp td, EvBegin] @ tx_events v) @ [EvCommit]\<rparr>))"
      using p None a
      by (simp add: createSnapshot_body_def v_def extract_opts_def Let_def)
    show ?thesis
    proof (cases "tx_err v \<noteq> None \<or> FTxCommit \<in> flt")
      case False
      with b have "wtrace w1 = wtrace w @ ([EvMkdirTemp td, EvBegin] @ tx_events v @ [EvCommit])"
        unfolding unf by auto
      then show ?thesis by auto
    next
      case True
      with b have r: "res = Inl (case tx_err v of Some e \<Rightarrow> e | None \<Rightarrow> ErrTxCommit)"
        and t: "td' = tx_td v" and pa: "path' = tx_path v" and ms: "wms w1 = wms w"
        and fs: "wfs w1 = tx_fs v"
        unfolding unf by auto
      have "(tx_td v = [] \<and> tx_path v \<noteq> [] \<and> tx_fs v = Rename f1 td (tx_path v))
            \<or> (tx_td v = td \<and> tx_fs v = f1)"
        using createSnapshot_tx_cases [of "wms w" k key parent "extract_opts key opts" s flt td f1]
        unfolding v_def [symmetric]
        by (auto simp add: join_def)
      then have "\<forall>p. wfs w p = None \<longrightarrow>
                    (td' \<noteq> [] \<and> is_under td' p) \<or> (path' \<noteq> [] \<and> is_under path' p)
                    \<or> wfs w1 p = None"
      proof
        assume h: "tx_td v = [] \<and> tx_path v \<noteq> [] \<and> tx_fs v = Rename f1 td (tx_path v)"
        show ?thesis
        proof (intro allI impI)
          fix q assume q: "wfs w q = None"
          show "(td' \<noteq> [] \<and> is_under td' q) \<or> (path' \<noteq> [] \<and> is_under path' q)
                    \<or> wfs w1 q = None"
          proof (cases "is_under path' q")
            case True
            with h pa show ?thesis by simp
          next
            case False
            have "wfs w1 q = (if is_under td q then None else f1 q)"
              using False h pa fs by (simp add: Rename_def)
            moreover have "\<not> is_under td q \<Longrightarrow> f1 q = None"
              using B [rule_format, of q] q by simp
            ultimately have "wfs w1 q = None" by (cases "is_under td q") simp_all
            then show ?thesis by simp
          qed
        qed
      next
        assume h: "tx_td v = td \<and> tx_fs v = f1"
        then have t': "td' = td" and f': "wfs w1 = f1" using t fs by auto
        show ?thesis
        proof (intro allI impI)
          fix q assume "wfs w q = None"
          from C [rule_format, OF this] have "(td \<noteq> [] \<and> is_under td q) \<or> f1 q = None" .
          then show "(td' \<noteq> [] \<and> is_under td' q) \<or> (path' \<noteq> [] \<and> is_under path' q)
                    \<or> wfs w1 q = None"
            unfolding t' f' by (elim disjE) simp_all
        qed
      qed
      with r ms show ?thesis
        by (intro disjI2 exI [of _ "case tx_err v of Some e \<Rightarrow> e | None \<Rightarrow> ErrTxCommit"]) simp
    qed
  qed
qed

lemma createSnapshot_uncommitted_failure_clean:
  "\<exists>evs. wtrace (snd (createSnapshot s flt tmp k key parent opts w)) = wtrace w @ evs
     \<and> (EvCommit \<notin> set evs \<longrightarrow>
           (\<exists>e. fst (createSnapshot s flt tmp k key parent opts w) = Inl e)
           \<and> wms (snd (createSnapshot s flt tmp k key parent opts w)) = wms w
           \<and> (FRemoveAll \<notin> flt \<longrightarrow>
                (\<forall>p. wfs w p = None \<longrightarrow>
                     wfs (snd (createSnapshot s flt tmp k key parent opts w)) p = None)))"
proof -
  obtain res td' path' w1 where
    b: "createSnapshot_body s flt tmp k key parent opts w = (res, td', path', w1)"
    by (cases "createSnapshot_body s flt tmp k key parent opts w") auto
  define R where "R = createSnapshot s flt tmp k key parent opts w"
  have R: "R = createSnapshot_defer flt (res, td', path', w1)"
    by (simp add: R_def createSnapshot_def b)
  from createSnapshot_defer_effect [of flt res td' path' w1] obtain rm where
    tr: "wtrace (snd R) = wtrace w1 @ rm" and ms: "wms (snd R) = wms w1"
    unfolding R by blast
  have tw: "\<exists>evs0. wtrace w1 = wtrace w @ evs0"
    using createSnapshot_body_trace [OF b] by auto
  then obtain evs0 where evs0: "wtrace w1 = wtrace w @ evs0" by blast
  have t: "wtrace (snd R) = wtrace w @ (evs0 @ rm)" using tr evs0 by simp
  have "EvCommit \<notin> set (evs0 @ rm) \<longrightarrow>
           (\<exists>e. fst R = Inl e) \<and> wms (snd R) = wms w
           \<and> (FRemoveAll \<notin> flt \<longrightarrow> (\<forall>p. wfs w p = None \<longrightarrow> wfs (snd R) p = None))"
  proof
    assume nc: "EvCommit \<notin> set (evs0 @ rm)"
    from createSnapshot_body_uncommitted [OF b] nc evs0
    obtain e where r: "res = Inl e" and m: "wms w1 = wms w"
      and f: "\<forall>p. wfs w p = None \<longrightarrow>
                    (td' \<noteq> [] \<and> is_under td' p) \<or> (path' \<noteq> [] \<and> is_under path' p)
                    \<or> wfs w1 p = None"
      by auto
    have 1: "fst R = Inl e" unfolding R r by (simp add: createSnapshot_defer_def Let_def)
    have 2: "wms (snd R) = wms w" using ms m by simp
    have 3: "FRemoveAll \<notin> flt \<longrightarrow> (\<forall>p. wfs w p = None \<longrightarrow> wfs (snd R) p = None)"
    proof (intro allI impI)
      fix q assume nf: "FRemoveAll \<notin> flt" and q: "wfs w q = None"
      from f [rule_format, OF q]
      have "(td' \<noteq> [] \<and> is_under td' q) \<or> (path' \<noteq> [] \<and> is_under path' q)
              \<or> wfs w1 q = None" .
      then show "wfs (snd R) q = None"
        unfolding R r createSnapshot_defer_fs [OF nf] by (elim disjE) simp_all
    qed
    from 1 2 3 show "(\<exists>e. fst R = Inl e) \<and> wms (snd R) = wms w
           \<and> (FRemoveAll \<notin> flt \<longrightarrow> (\<forall>p. wfs w p = None \<longrightarrow> wfs (snd R) p = None))"
      by blast
  qed
  with t show ?thesis unfolding R_def by blast
qed


text \<open>
  Claim C1 fails on the code: in block mode, \<open>mkfs.ext4\<close> fails after the transaction
  has committed. \<open>Prepare\<close> returns the error and the deferred cleanup removes the
  directory, but the record of the key, which was not in the store before, stays.
\<close>

theorem Prepare_failure_leaves_record:
  "fst (Prepare cfg_block {FMkfsExt4} ''X'' ''k'' [] [] world_empty) = Inl ErrFormatExt4
   \<and> recs (wms world_empty) ''k'' = None
   \<and> (\<exists>r. recs (wms (snd (Prepare cfg_block {FMkfsExt4} ''X'' ''k'' [] [] world_empty))) ''k''
            = Some r \<and> rec_id r = ''1'' \<and> rec_kind r = KindActive)
   \<and> wfs (snd (Prepare cfg_block {FMkfsExt4} ''X'' ''k'' [] [] world_empty))
        ''/r/snapshots/1'' = None
   \<and> wfs (snd (Prepare cfg_block {FMkfsExt4} ''X'' ''k'' [] [] world_empty))
        ''/r/snapshots/new-X'' = None"
  by (simp add: eval_defs cfg_block_def cfg_dir_def world_empty_def)

subsection \<open>The layer-order label\<close>

lemma index_of_Some:
  "index_of c xs = Some i \<Longrightarrow> i < length xs \<and> xs ! i = c"
proof (induction xs arbitrary: i)
  case Nil
  then show ?case by simp
next
  case (Cons x xs)
  show ?case
  proof (cases "x = c")
    case True
    with Cons.prems show ?thesis by simp
  next
    case False
    with Cons.prems obtain j where j: "index_of c xs = Some j" and i: "i = Suc j"
      by (cases "index_of c xs") auto
    from Cons.IH [OF j] i show ?thesis by simp
  qed
qed

lemma algorithm_chars:
  "algorithm_Size a = Some n \<Longrightarrow> \<forall>c \<in> set a. digest_char c"
  by (auto simp add: algorithm_Size_def digest_char_def split: if_splits)

lemma hex_is_digest_char: "is_lower_hex c \<Longrightarrow> digest_char c"
  by (auto simp add: is_lower_hex_def digest_char_def)

lemma digest_valid_chars:
  assumes "digest_Validate d"
  shows "\<forall>c \<in> set d. digest_char c"
proof -
  from assms obtain i n where i: "index_of CHR '':'' d = Some i"
    and a: "algorithm_Size (take i d) = Some n"
    and h: "list_all is_lower_hex (drop (i + 1) d)"
    by (auto simp add: digest_Validate_def split: option.splits if_splits)
  from index_of_Some [OF i] have il: "i < length d" and c: "d ! i = CHR '':''" by auto
  from il have "d = take i d @ d ! i # drop (Suc i) d" by (rule id_take_nth_drop)
  then have "set d = set (take i d) \<union> {d ! i} \<union> set (drop (Suc i) d)"
    by (metis Un_insert_right list.simps(15) set_append sup_bot.right_neutral Un_assoc insert_is_Un)
  moreover have "\<forall>c \<in> set (take i d). digest_char c" using algorithm_chars [OF a] .
  moreover have "digest_char (d ! i)" using c by (simp add: digest_char_def)
  moreover have "\<forall>c \<in> set (drop (Suc i) d). digest_char c"
    using h hex_is_digest_char by (auto simp add: list_all_iff)
  ultimately show ?thesis by auto
qed

lemma digest_alphabet_plain:
  "\<forall>c \<in> set ''0123456789abcdefsh:''.
     c \<noteq> CHR 0x22 \<and> c \<noteq> CHR 0x5C \<and> \<not> (of_char c :: nat) < 32 \<and> json_escape_char c = [c]"
  by (simp add: json_escape_char_def)

lemma digest_char_plain:
  "digest_char c \<Longrightarrow> c \<noteq> CHR 0x22 \<and> c \<noteq> CHR 0x5C \<and> \<not> (of_char c :: nat) < 32
     \<and> json_escape_char c = [c]"
  using digest_alphabet_plain unfolding digest_char_def by blast

lemma escape_plain: "\<forall>c \<in> set d. digest_char c \<Longrightarrow> concat (map json_escape_char d) = d"
  by (induction d) (simp_all add: digest_char_plain)

lemma json_quote_plain:
  "\<forall>c \<in> set d. digest_char c \<Longrightarrow> json_quote d = CHR 0x22 # d @ [CHR 0x22]"
  by (simp add: json_quote_def escape_plain)

lemma scan_string_plain:
  "\<forall>c \<in> set d. digest_char c \<Longrightarrow>
     scan JStr es acc (d @ CHR 0x22 # rest) = scan JNext (es @ [acc @ d]) [] rest"
proof (induction d arbitrary: acc)
  case Nil
  then show ?case by simp
next
  case (Cons c d)
  from Cons.prems have c: "digest_char c" and d: "\<forall>c \<in> set d. digest_char c" by auto
  from digest_char_plain [OF c]
  have "scan JStr es acc ((c # d) @ CHR 0x22 # rest) = scan JStr es (acc @ [c]) (d @ CHR 0x22 # rest)"
    by simp
  also have "\<dots> = scan JNext (es @ [(acc @ [c]) @ d]) [] rest"
    using Cons.IH [OF d] .
  finally show ?case by simp
qed

lemma scan_elements:
  "\<forall>d \<in> set ds. \<forall>c \<in> set d. digest_char c \<Longrightarrow>
     scan JNext es [] (concat (map (\<lambda>d. '','' @ json_quote d) ds) @ '']'') = Some (es @ ds)"
proof (induction ds arbitrary: es)
  case Nil
  then show ?case by (simp add: is_ws_def)
next
  case (Cons d ds)
  from Cons.prems have d: "\<forall>c \<in> set d. digest_char c"
    and ds: "\<forall>d \<in> set ds. \<forall>c \<in> set d. digest_char c" by auto
  define rest where "rest = concat (map (\<lambda>d. '','' @ json_quote d) ds) @ '']''"
  have "scan JNext es [] (concat (map (\<lambda>d. '','' @ json_quote d) (d # ds)) @ '']'')
        = scan JNext es [] (CHR '','' # CHR 0x22 # d @ CHR 0x22 # rest)"
    by (simp add: json_quote_plain [OF d] rest_def)
  also have "\<dots> = scan JStr es [] (d @ CHR 0x22 # rest)"
    by (simp add: is_ws_def)
  also have "\<dots> = scan JNext (es @ [d]) [] rest"
    using scan_string_plain [OF d, of es "[]" rest] by simp
  also have "\<dots> = Some ((es @ [d]) @ ds)"
    unfolding rest_def using Cons.IH [OF ds] .
  finally show ?case by simp
qed

lemma Join_Cons: "Join (x # xs) sep = x @ concat (map (\<lambda>y. sep @ y) xs)"
  by (induction xs arbitrary: x) simp_all

lemma unmarshal_marshal:
  assumes "\<forall>d \<in> set ds. \<forall>c \<in> set d. digest_char c" and "ds \<noteq> []"
  shows "\<exists>data. json_Marshal ds = Some data \<and> data \<noteq> [] \<and> data \<noteq> ''[]''
           \<and> json_Unmarshal data = Some ds"
proof -
  from assms(2) obtain d ds' where ds: "ds = d # ds'" by (cases ds) auto
  from assms(1) ds have d: "\<forall>c \<in> set d. digest_char c"
    and ds': "\<forall>d \<in> set ds'. \<forall>c \<in> set d. digest_char c" by auto
  define rest where "rest = concat (map (\<lambda>d. '','' @ json_quote d) ds') @ '']''"
  have m: "json_Marshal ds = Some (CHR ''['' # CHR 0x22 # d @ CHR 0x22 # rest)"
    by (simp add: json_Marshal_def ds Join_Cons json_quote_plain [OF d] rest_def comp_def)
  have "json_Unmarshal (CHR ''['' # CHR 0x22 # d @ CHR 0x22 # rest)
        = scan JStr [] [] (d @ CHR 0x22 # rest)"
    by (simp add: json_Unmarshal_def is_ws_def)
  also have "\<dots> = scan JNext ([] @ [[] @ d]) [] rest"
    using scan_string_plain [OF d, of "[]" "[]" rest] .
  also have "\<dots> = Some ([d] @ ds')"
    unfolding rest_def using scan_elements [OF ds', of "[d]"] by simp
  finally have u: "json_Unmarshal (CHR ''['' # CHR 0x22 # d @ CHR 0x22 # rest) = Some ds"
    by (simp add: ds)
  from m u show ?thesis by simp
qed

lemma parse_digests_filter: "parse_digests strs = filter digest_Validate strs"
  by (induction strs) (simp_all add: digest_Parse_def)

text \<open>
  Claim C9: decoding the encoding of a list of valid digests gives the list back;
  decoding the empty string or \<open>[]\<close> gives the empty list; decoding a text that is
  not valid JSON for a list of strings gives the empty list; and decoding a JSON array of
  strings gives its valid digests in their order, the invalid entries being skipped.
\<close>

theorem layer_order_round_trip:
  "(list_all digest_Validate ds \<longrightarrow> DecodeLayerOrder (EncodeLayerOrder ds) = ds)
   \<and> DecodeLayerOrder [] = [] \<and> DecodeLayerOrder ''[]'' = []
   \<and> (json_Unmarshal e = None \<longrightarrow> DecodeLayerOrder e = [])
   \<and> (json_Unmarshal e = Some strs \<longrightarrow> DecodeLayerOrder e = filter digest_Validate strs)"
proof (intro conjI impI)
  assume v: "list_all digest_Validate ds"
  show "DecodeLayerOrder (EncodeLayerOrder ds) = ds"
  proof (cases "ds = []")
    case True
    then show ?thesis by (simp add: EncodeLayerOrder_def DecodeLayerOrder_def)
  next
    case False
    from v have "\<forall>d \<in> set ds. \<forall>c \<in> set d. digest_char c"
      using digest_valid_chars by (auto simp add: list_all_iff)
    from unmarshal_marshal [OF this False] obtain data where
      "json_Marshal ds = Some data" "data \<noteq> []" "data \<noteq> ''[]''" "json_Unmarshal data = Some ds"
      by blast
    moreover have "filter digest_Validate ds = ds" using v by (simp add: list_all_iff)
    ultimately show ?thesis
      using False by (simp add: EncodeLayerOrder_def DecodeLayerOrder_def parse_digests_filter)
  qed
next
  show "DecodeLayerOrder [] = []" by (simp add: DecodeLayerOrder_def)
  show "DecodeLayerOrder ''[]'' = []" by (simp add: DecodeLayerOrder_def)
next
  assume "json_Unmarshal e = None"
  then show "DecodeLayerOrder e = []" by (simp add: DecodeLayerOrder_def)
next
  assume u: "json_Unmarshal e = Some strs"
  have e: "json_Unmarshal ''[]'' = Some []"
    by (simp add: json_Unmarshal_def is_ws_def)
  show "DecodeLayerOrder e = filter digest_Validate strs"
  proof (cases "e = [] \<or> e = ''[]''")
    case True
    with u e have "strs = []" by (auto simp add: json_Unmarshal_def)
    with True show ?thesis by (auto simp add: DecodeLayerOrder_def)
  next
    case False
    with u show ?thesis by (simp add: DecodeLayerOrder_def parse_digests_filter)
  qed
qed


theorem layer_order_round_trip_witness:
  "list_all digest_Validate [digest_a, digest_b]
   \<and> DecodeLayerOrder (EncodeLayerOrder [digest_a, digest_b]) = [digest_a, digest_b]
   \<and> json_Unmarshal ''not json'' = None \<and> DecodeLayerOrder ''not json'' = []
   \<and> json_Unmarshal mixed_json = Some [digest_a, ''invalid'']
   \<and> DecodeLayerOrder mixed_json = filter digest_Validate [digest_a, ''invalid'']
   \<and> filter digest_Validate [digest_a, ''invalid''] = [digest_a]"
proof -
  have h1: "list_all digest_Validate [digest_a, digest_b]"
    by code_simp
  have h2: "json_Unmarshal ''not json'' = None"
    by code_simp
  have h3: "json_Unmarshal mixed_json = Some [digest_a, ''invalid'']"
    by code_simp
  have h4: "filter digest_Validate [digest_a, ''invalid''] = [digest_a]"
    by code_simp
  show ?thesis
    using h1 h2 h3 h4
      layer_order_round_trip [of "[digest_a, digest_b]" "''not json''" "[]"]
      layer_order_round_trip [of "[]" mixed_json "[digest_a, ''invalid'']"]
    by simp
qed

end
